theory Spec2Isabelle
  imports Main
begin

section \<open>The remote host, the clock and Python's exceptions\<close>

text \<open>
  The library drives a remote host through \<open>g.run(host, cmd)\<close>, which returns the triple
  \<open>(ret, out, err)\<close>, and waits with \<open>time.sleep\<close>. The world of the model holds the
  wall clock (whole seconds) and the answers the host is going to give, in order, each with
  the time the command takes. A command asked of a host whose answers are used up gives
  \<open>None\<close>: the description of the host ended before the program did. \<open>ran\<close> records the
  commands issued and \<open>iterated\<close> records, for every \<open>for\<close> statement started on a Waiter,
  the state the instance was in when the statement started.
\<close>

datatype exc =
    ExecutionError | AssertionError | IndexError | ValueError | NameError | KeyError
  | YAMLError | InvalidArgument

type_synonym run_result = "int \<times> string \<times> string"

datatype json = JStr string | JBool bool | JObj "(string \<times> json) list"

datatype cmd =
    OcGetPodReady string
  | OcGetPodsOfDc string
  | OcGetPvcStatus string
  | OcDescribePvc string
  | OcGetPvcSizes string
  | OcGetPvSize string
  | OcGetYaml string "string option"
  | OcGetPvClaims string
  | OcGetEvents "string list"
  | OcCreateFile json
  | OcCreateStdin json

record waiter =
  timeout :: int
  interval :: int
  start_time :: "int option"
  expired :: bool

record world =
  clock :: int
  script :: "(nat \<times> run_result) list"
  ran :: "cmd list"
  iterated :: "waiter list"

definition g_run :: "cmd \<Rightarrow> world \<Rightarrow> (run_result \<times> world) option" where
  "g_run c wd =
     (case script wd of
        [] \<Rightarrow> None
      | (d, r) # rest \<Rightarrow>
          Some (r, wd\<lparr>clock := clock wd + int d, script := rest, ran := ran wd @ [c]\<rparr>))"

section \<open>The Waiter\<close>

text \<open>
  Modelled from the spec: the module \<open>cnslibs.common.waiter\<close> (class \<open>Waiter\<close>) is not
  among the sources. Sections 4.1, 7 and 8 of the specification agree that a negative
  timeout and a negative interval are invalid, and sections 7 and 8 have the construction
  fail with an invalid-argument error. On an interval of 0 they disagree: section 7 counts
  it as invalid, section 4.1 says that passing it is permitted and only removes the
  throttling. The model follows section 4.1 there, which speaks of the value itself. A
  Waiter that is constructed has not started and has not expired.
\<close>

definition Waiter :: "int \<Rightarrow> int \<Rightarrow> exc + waiter" where
  "Waiter t i =
     (if t < 0 \<or> i < 0 then Inl InvalidArgument
      else Inr \<lparr>timeout = t, interval = i, start_time = None, expired = False\<rparr>)"

datatype signal = Tick | StopIteration

text \<open>
  Modelled from the spec: one tick request of the Waiter (its \<open>next\<close>), after the algorithm of
  section 4.1. The first request records the start time and produces a tick without
  sleeping. Every later request computes the elapsed time; when it is at least the timeout
  it marks the session expired and ends the sequence, otherwise it sleeps for the interval
  and produces a tick, with no second look at the clock.
\<close>

definition waiter_next :: "waiter \<Rightarrow> world \<Rightarrow> signal \<times> waiter \<times> world" where
  "waiter_next w wd =
     (case start_time w of
        None \<Rightarrow> (Tick, w\<lparr>start_time := Some (clock wd)\<rparr>, wd)
      | Some st \<Rightarrow>
          if clock wd - st \<ge> timeout w then (StopIteration, w\<lparr>expired := True\<rparr>, wd)
          else (Tick, w, wd\<lparr>clock := clock wd + interval w\<rparr>))"

section \<open>The for statement over a Waiter\<close>

text \<open>
  \<open>for w in W: body\<close> asks \<open>W\<close> for a tick, runs the body on it and repeats; it ends when
  the Waiter ends the sequence, when the body breaks or returns, or when the body raises.
  The body is a function of its local variables and the world. The result carries how the
  loop ended, the times at which the ticks were produced, the Waiter and the world.
  Every loop body of the library asks the host one command; a body that continues without
  having asked the host anything is outside the model (the result is \<open>None\<close>).
\<close>

datatype ('s, 'r) ctl = Continue 's | Break 's | Return 'r | Raise exc

datatype ('s, 'r) loop_end = Exhausted 's | Broke 's | Returned 'r | Raised exc

type_synonym ('s, 'r) body = "'s \<Rightarrow> world \<Rightarrow> (('s, 'r) ctl \<times> world) option"

function iterate ::
  "('s, 'r) body \<Rightarrow> 's \<Rightarrow> waiter \<Rightarrow> world \<Rightarrow>
     (('s, 'r) loop_end \<times> int list \<times> waiter \<times> world) option" where
  "iterate body s w wd =
     (case waiter_next w wd of
        (StopIteration, w', wd') \<Rightarrow> Some (Exhausted s, [], w', wd')
      | (Tick, w', wd') \<Rightarrow>
          (case body s wd' of
             None \<Rightarrow> None
           | Some (Continue s', wd'') \<Rightarrow>
               if length (script wd'') < length (script wd)
               then map_option (\<lambda>(e, ts, r). (e, clock wd' # ts, r)) (iterate body s' w' wd'')
               else None
           | Some (Break s', wd'') \<Rightarrow> Some (Broke s', [clock wd'], w', wd'')
           | Some (Return r, wd'') \<Rightarrow> Some (Returned r, [clock wd'], w', wd'')
           | Some (Raise e, wd'') \<Rightarrow> Some (Raised e, [clock wd'], w', wd'')))"
  by pat_completeness auto
termination
  by (relation "measure (\<lambda>(body, s, w, wd). length (script wd))") auto

declare iterate.simps [simp del]

definition for_waiter ::
  "('s, 'r) body \<Rightarrow> 's \<Rightarrow> waiter \<Rightarrow> world \<Rightarrow>
     (('s, 'r) loop_end \<times> int list \<times> waiter \<times> world) option" where
  "for_waiter body s w wd = iterate body s w (wd\<lparr>iterated := iterated wd @ [w]\<rparr>)"

section \<open>Python's string operations\<close>

text \<open>
  The strings of the library are Python 2 byte strings (the module uses
  \<open>types.StringTypes\<close>). \<open>str.strip()\<close> and \<open>str.split()\<close> without an argument work on the
  six ASCII whitespace characters.
\<close>

definition is_space :: "char \<Rightarrow> bool" where
  "is_space c \<longleftrightarrow> c \<in> set [CHR '' '', CHR 0x09, CHR 0x0A, CHR 0x0B, CHR 0x0C, CHR 0x0D]"

definition py_strip :: "string \<Rightarrow> string" where
  "py_strip s = rev (dropWhile is_space (rev (dropWhile is_space s)))"

text \<open>\<open>s.split()\<close>: the maximal runs of characters that are not whitespace.\<close>

fun split_ws :: "string \<Rightarrow> string \<Rightarrow> string list" where
  "split_ws cur [] = (if cur = [] then [] else [cur])"
| "split_ws cur (c # cs) =
     (if is_space c then (if cur = [] then split_ws [] cs else cur # split_ws [] cs)
      else split_ws (cur @ [c]) cs)"

definition py_split :: "string \<Rightarrow> string list" where
  "py_split s = split_ws [] s"

text \<open>\<open>s.split("\n")[0]\<close>: the text before the first newline (all of \<open>s\<close> without one).\<close>

definition first_line :: "string \<Rightarrow> string" where
  "first_line s = takeWhile (\<lambda>c. c \<noteq> CHR 0x0A) s"

text \<open>\<open>s.replace("Gi", "")\<close>: every occurrence of \<open>Gi\<close>, found from the left, is removed.\<close>

fun remove_Gi :: "string \<Rightarrow> string" where
  "remove_Gi (a # b # cs) =
     (if a = CHR ''G'' \<and> b = CHR ''i'' then remove_Gi cs else a # remove_Gi (b # cs))"
| "remove_Gi cs = cs"

text \<open>
  \<open>int(s)\<close> on a byte string: whitespace around the literal is ignored, one sign is allowed,
  then at least one decimal digit and nothing else; everything else is a \<open>ValueError\<close>.
\<close>

definition is_digit :: "char \<Rightarrow> bool" where
  "is_digit c \<longleftrightarrow> c \<in> set ''0123456789''"

definition digits_value :: "string \<Rightarrow> int" where
  "digits_value ds = foldl (\<lambda>a c. a * 10 + (int (of_char c) - 48)) 0 ds"

definition py_int :: "string \<Rightarrow> exc + int" where
  "py_int s =
     (let t = py_strip s;
          neg = (t \<noteq> [] \<and> hd t = CHR ''-'');
          ds = (if t \<noteq> [] \<and> (hd t = CHR ''-'' \<or> hd t = CHR ''+'') then tl t else t)
      in if ds \<noteq> [] \<and> list_all is_digit ds
         then Inr (if neg then - digits_value ds else digits_value ds)
         else Inl ValueError)"

text \<open>\<open>xs[i]\<close> raises \<open>IndexError\<close> beyond the end of the list.\<close>

definition py_index :: "'a list \<Rightarrow> nat \<Rightarrow> exc + 'a" where
  "py_index xs i = (if i < length xs then Inr (xs ! i) else Inl IndexError)"

text \<open>\<open>str.lower()\<close> on a byte string maps the letters \<open>A\<close> to \<open>Z\<close> only.\<close>

definition lower_char :: "char \<Rightarrow> char" where
  "lower_char c =
     (case map_of (zip ''ABCDEFGHIJKLMNOPQRSTUVWXYZ'' ''abcdefghijklmnopqrstuvwxyz'') c of
        None \<Rightarrow> c
      | Some l \<Rightarrow> l)"

definition py_lower :: "string \<Rightarrow> string" where
  "py_lower s = map lower_char s"

datatype pyval = PyNone | PyBool bool | PyStr string

type_synonym 'a outcome = "((exc + 'a) \<times> world) option"

section \<open>The polling functions of \<open>openshift_ops\<close>\<close>

text \<open>
  Logging and the texts of the exceptions are left out: nothing branches on them, except
  on \<open>msg\<close> in \<open>verify_pvc_status_is_bound\<close>, which is kept. A function returns
  \<open>Inr\<close> its value or \<open>Inl\<close> the exception it raises, with the world it leaves.
  After a loop, \<open>w.expired\<close> reads the loop variable, which is the Waiter itself; when no
  tick was ever produced the variable is unbound and reading it is a \<open>NameError\<close>.
\<close>

subsection \<open>\<open>wait_for_pod_be_ready\<close>\<close>

definition pod_ready_body :: "string \<Rightarrow> (unit, pyval) body" where
  "pod_ready_body pod_name s wd =
     (case g_run (OcGetPodReady pod_name) wd of
        None \<Rightarrow> None
      | Some ((ret, out, err), wd') \<Rightarrow>
          Some (if ret \<noteq> 0 then Raise ExecutionError
                else (case py_split (py_strip out) of
                        [] \<Rightarrow> Raise IndexError
                      | [ready] \<Rightarrow> Raise IndexError
                      | ready # phase # _ \<Rightarrow>
                          if ready = ''true'' \<and> phase = ''Running'' then Return (PyBool True)
                          else if phase = ''Error'' then Raise ExecutionError
                          else Continue s),
                wd'))"

definition wait_for_pod_be_ready :: "string \<Rightarrow> int \<Rightarrow> int \<Rightarrow> world \<Rightarrow> pyval outcome" where
  "wait_for_pod_be_ready pod_name timeout' wait_step wd =
     (case Waiter timeout' wait_step of
        Inl e \<Rightarrow> Some (Inl e, wd)
      | Inr w0 \<Rightarrow>
          (case for_waiter (pod_ready_body pod_name) () w0 wd of
             None \<Rightarrow> None
           | Some (Returned r, ts, w, wd') \<Rightarrow> Some (Inr r, wd')
           | Some (Raised e, ts, w, wd') \<Rightarrow> Some (Inl e, wd')
           | Some (_, ts, w, wd') \<Rightarrow>
               if ts = [] then Some (Inl NameError, wd')
               else if expired w then Some (Inl ExecutionError, wd')
               else Some (Inr PyNone, wd')))"

subsection \<open>\<open>get_pod_name_from_dc\<close>\<close>

definition pod_name_body :: "string \<Rightarrow> (unit, pyval) body" where
  "pod_name_body dc_name s wd =
     (case g_run (OcGetPodsOfDc dc_name) wd of
        None \<Rightarrow> None
      | Some ((ret, out, err), wd') \<Rightarrow>
          Some (if ret \<noteq> 0 then Raise ExecutionError
                else if py_strip out = [] then Continue s
                else Return (PyStr (py_strip out)),
                wd'))"

definition get_pod_name_from_dc :: "string \<Rightarrow> int \<Rightarrow> int \<Rightarrow> world \<Rightarrow> pyval outcome" where
  "get_pod_name_from_dc dc_name timeout' wait_step wd =
     (case Waiter timeout' wait_step of
        Inl e \<Rightarrow> Some (Inl e, wd)
      | Inr w0 \<Rightarrow>
          (case for_waiter (pod_name_body dc_name) () w0 wd of
             None \<Rightarrow> None
           | Some (Returned r, ts, w, wd') \<Rightarrow> Some (Inr r, wd')
           | Some (Raised e, ts, w, wd') \<Rightarrow> Some (Inl e, wd')
           | Some (_, ts, w, wd') \<Rightarrow>
               if ts = [] then Some (Inl NameError, wd')
               else if expired w then Some (Inl ExecutionError, wd')
               else Some (Inr PyNone, wd')))"

subsection \<open>\<open>get_pvc_status\<close> and \<open>verify_pvc_status_is_bound\<close>\<close>

definition get_pvc_status :: "string \<Rightarrow> world \<Rightarrow> ((bool \<times> string) \<times> world) option" where
  "get_pvc_status pvc_name wd =
     (case g_run (OcGetPvcStatus pvc_name) wd of
        None \<Rightarrow> None
      | Some ((ret, out, err), wd') \<Rightarrow>
          Some (if ret \<noteq> 0 then (False, err)
                else (True, py_strip (first_line (py_strip out))), wd'))"

text \<open>
  \<open>quoted\<close> puts a text between single quotes, as the messages do. The loop body ends
  with \<open>if msg: raise AssertionError(msg)\<close>.
\<close>

definition quoted :: "string \<Rightarrow> string" where
  "quoted s = CHR 0x27 # s @ [CHR 0x27]"

definition raise_if_msg :: "string \<Rightarrow> nat \<Rightarrow> (nat, pyval) ctl" where
  "raise_if_msg msg counter = (if msg \<noteq> [] then Raise AssertionError else Continue counter)"

definition pvc_bound_body :: "string \<Rightarrow> (nat, pyval) body" where
  "pvc_bound_body pvc_name pvc_not_found_counter wd =
     (case get_pvc_status pvc_name wd of
        None \<Rightarrow> None
      | Some ((ret, output), wd') \<Rightarrow>
          Some (if \<not> ret then Raise ExecutionError
                else if output = [] then
                  (if pvc_not_found_counter > 0
                   then raise_if_msg (''PVC '' @ quoted pvc_name
                          @ '' has not been found 2 times already. ''
                          @ ''Make sure you provided correct PVC name.'') pvc_not_found_counter
                   else Continue (pvc_not_found_counter + 1))
                else if output = ''Pending'' then Continue pvc_not_found_counter
                else if output = ''Bound'' then Return (PyStr pvc_name)
                else if output = ''Error''
                  then raise_if_msg (''PVC '' @ quoted pvc_name @ '' is in '' @ quoted ''Error''
                          @ '' state.'') pvc_not_found_counter
                else raise_if_msg (''PVC '' @ pvc_name @ '' has different status - '' @ output)
                       pvc_not_found_counter,
                wd'))"

definition verify_pvc_status_is_bound ::
  "string \<Rightarrow> int \<Rightarrow> int \<Rightarrow> world \<Rightarrow> pyval outcome" where
  "verify_pvc_status_is_bound pvc_name timeout' wait_step wd =
     (case Waiter timeout' wait_step of
        Inl e \<Rightarrow> Some (Inl e, wd)
      | Inr w0 \<Rightarrow>
          (case for_waiter (pvc_bound_body pvc_name) 0 w0 wd of
             None \<Rightarrow> None
           | Some (Returned r, ts, w, wd') \<Rightarrow> Some (Inr r, wd')
           | Some (Raised e, ts, w, wd') \<Rightarrow> Some (Inl e, wd')
           | Some (_, ts, w, wd') \<Rightarrow>
               if ts = [] then Some (Inl NameError, wd')
               else if expired w then
                 (case g_run (OcDescribePvc pvc_name) wd' of
                    None \<Rightarrow> None
                  | Some (_, wd'') \<Rightarrow> Some (Inl AssertionError, wd''))
               else Some (Inr PyNone, wd')))"

subsection \<open>\<open>verify_pvc_size\<close> and \<open>verify_pv_size\<close>\<close>

text \<open>
  \<open>command.cmd_run\<close> is not among the sources. It runs the command on the host once; what
  it makes of the answer (an exception, or the text it returns) is the parameter \<open>result\<close>.
\<close>

definition cmd_run ::
  "(run_result \<Rightarrow> exc + string) \<Rightarrow> cmd \<Rightarrow> world \<Rightarrow> ((exc + string) \<times> world) option" where
  "cmd_run result c wd =
     (case g_run c wd of None \<Rightarrow> None | Some (r, wd') \<Rightarrow> Some (result r, wd'))"

text \<open>The local variables \<open>spec_size\<close> and \<open>actual_size\<close> outlive the loop.\<close>

definition pvc_size_body ::
  "(run_result \<Rightarrow> exc + string) \<Rightarrow> string \<Rightarrow> int \<Rightarrow> ((int \<times> int) option, pyval) body" where
  "pvc_size_body result pvc_name size' s wd =
     (case cmd_run result (OcGetPvcSizes pvc_name) wd of
        None \<Rightarrow> None
      | Some (Inl e, wd') \<Rightarrow> Some (Raise e, wd')
      | Some (Inr out, wd') \<Rightarrow>
          Some (case py_index (py_split out) 0 of
                  Inl e \<Rightarrow> Raise e
                | Inr s0 \<Rightarrow>
                    (case py_int (remove_Gi s0) of
                       Inl e \<Rightarrow> Raise e
                     | Inr spec_size \<Rightarrow>
                         (case py_index (py_split out) 1 of
                            Inl e \<Rightarrow> Raise e
                          | Inr s1 \<Rightarrow>
                              (case py_int (remove_Gi s1) of
                                 Inl e \<Rightarrow> Raise e
                               | Inr actual_size \<Rightarrow>
                                   if spec_size = actual_size \<and> actual_size = size'
                                   then Return (PyBool True)
                                   else Continue (Some (spec_size, actual_size))))),
                wd'))"

definition verify_pvc_size ::
  "(run_result \<Rightarrow> exc + string) \<Rightarrow> string \<Rightarrow> int \<Rightarrow> int \<Rightarrow> int \<Rightarrow> world \<Rightarrow> pyval outcome" where
  "verify_pvc_size result pvc_name size' timeout' wait_step wd =
     (case Waiter timeout' wait_step of
        Inl e \<Rightarrow> Some (Inl e, wd)
      | Inr w0 \<Rightarrow>
          (case for_waiter (pvc_size_body result pvc_name size') None w0 wd of
             None \<Rightarrow> None
           | Some (Returned r, ts, w, wd') \<Rightarrow> Some (Inr r, wd')
           | Some (Raised e, ts, w, wd') \<Rightarrow> Some (Inl e, wd')
           | Some (Exhausted s, ts, w, wd') \<Rightarrow>
               (case s of None \<Rightarrow> Some (Inl NameError, wd')
                | Some _ \<Rightarrow> Some (Inl AssertionError, wd'))
           | Some (Broke s, ts, w, wd') \<Rightarrow>
               (case s of None \<Rightarrow> Some (Inl NameError, wd')
                | Some _ \<Rightarrow> Some (Inl AssertionError, wd'))))"

definition pv_size_body ::
  "(run_result \<Rightarrow> exc + string) \<Rightarrow> string \<Rightarrow> int \<Rightarrow> (int option, pyval) body" where
  "pv_size_body result pv_name size' s wd =
     (case cmd_run result (OcGetPvSize pv_name) wd of
        None \<Rightarrow> None
      | Some (Inl e, wd') \<Rightarrow> Some (Raise e, wd')
      | Some (Inr out, wd') \<Rightarrow>
          Some (case py_index (py_split out) 0 of
                  Inl e \<Rightarrow> Raise e
                | Inr s0 \<Rightarrow>
                    (case py_int (remove_Gi s0) of
                       Inl e \<Rightarrow> Raise e
                     | Inr pv_size \<Rightarrow>
                         if pv_size = size' then Return (PyBool True)
                         else Continue (Some pv_size)),
                wd'))"

definition verify_pv_size ::
  "(run_result \<Rightarrow> exc + string) \<Rightarrow> string \<Rightarrow> int \<Rightarrow> int \<Rightarrow> int \<Rightarrow> world \<Rightarrow> pyval outcome" where
  "verify_pv_size result pv_name size' timeout' wait_step wd =
     (case Waiter timeout' wait_step of
        Inl e \<Rightarrow> Some (Inl e, wd)
      | Inr w0 \<Rightarrow>
          (case for_waiter (pv_size_body result pv_name size') None w0 wd of
             None \<Rightarrow> None
           | Some (Returned r, ts, w, wd') \<Rightarrow> Some (Inr r, wd')
           | Some (Raised e, ts, w, wd') \<Rightarrow> Some (Inl e, wd')
           | Some (Exhausted s, ts, w, wd') \<Rightarrow>
               (case s of None \<Rightarrow> Some (Inl NameError, wd')
                | Some _ \<Rightarrow> Some (Inl AssertionError, wd'))
           | Some (Broke s, ts, w, wd') \<Rightarrow>
               (case s of None \<Rightarrow> Some (Inl NameError, wd')
                | Some _ \<Rightarrow> Some (Inl AssertionError, wd'))))"

subsection \<open>\<open>oc_get_yaml\<close> and \<open>wait_for_resource_absence\<close>\<close>

text \<open>
  \<open>yaml.load\<close> belongs to a library outside the repository and is the parameter
  \<open>yaml_load\<close>: the document it reads, or the exception it raises. \<open>name\<close> is
  \<open>None\<close> or a string, as in the source.
\<close>

definition oc_get_yaml ::
  "(string \<Rightarrow> exc + 'y) \<Rightarrow> string \<Rightarrow> string option \<Rightarrow> bool \<Rightarrow> 'y \<Rightarrow> world \<Rightarrow>
     ((exc + 'y) \<times> world) option" where
  "oc_get_yaml yaml_load rtype name raise_on_error empty_dict wd =
     (case g_run (OcGetYaml rtype name) wd of
        None \<Rightarrow> None
      | Some ((ret, out, err), wd') \<Rightarrow>
          Some (if ret \<noteq> 0 then (if raise_on_error then Inl AssertionError else Inr empty_dict)
                else yaml_load out, wd'))"

text \<open>The first loop: \<open>try: oc_get_yaml(...) except AssertionError: break\<close>.\<close>

definition absence_body ::
  "(string \<Rightarrow> exc + 'y) \<Rightarrow> 'y \<Rightarrow> string \<Rightarrow> string \<Rightarrow> (unit, unit) body" where
  "absence_body yaml_load empty_dict rtype name s wd =
     (case oc_get_yaml yaml_load rtype (Some name) True empty_dict wd of
        None \<Rightarrow> None
      | Some (Inl e, wd') \<Rightarrow> Some (if e = AssertionError then Break s else Raise e, wd')
      | Some (Inr _, wd') \<Rightarrow> Some (Continue s, wd'))"

text \<open>The second loop, for a PVC: wait until no PV names the claim.\<close>

definition pv_claim_body :: "string \<Rightarrow> (unit, unit) body" where
  "pv_claim_body name s wd =
     (case g_run (OcGetPvClaims name) wd of
        None \<Rightarrow> None
      | Some ((ret, out, err), wd') \<Rightarrow> Some (if ret \<noteq> 0 then Break s else Continue s, wd'))"

text \<open>
  Both loops run over the one instance \<open>_waiter\<close>: the second \<open>for\<close> statement is given
  the Waiter as the first one left it.
\<close>

definition wait_for_resource_absence ::
  "(string \<Rightarrow> exc + 'y) \<Rightarrow> 'y \<Rightarrow> string \<Rightarrow> string \<Rightarrow> int \<Rightarrow> int \<Rightarrow> world \<Rightarrow> pyval outcome" where
  "wait_for_resource_absence yaml_load empty_dict rtype name interval' timeout' wd =
     (case Waiter timeout' interval' of
        Inl e \<Rightarrow> Some (Inl e, wd)
      | Inr w0 \<Rightarrow>
          (case for_waiter (absence_body yaml_load empty_dict rtype name) () w0 wd of
             None \<Rightarrow> None
           | Some (Returned r, ts, w, wd') \<Rightarrow> Some (Inr PyNone, wd')
           | Some (Raised e, ts, w, wd') \<Rightarrow> Some (Inl e, wd')
           | Some (_, ts, w, wd') \<Rightarrow>
               if rtype = ''pvc'' then
                 (case for_waiter (pv_claim_body name) () w wd' of
                    None \<Rightarrow> None
                  | Some (Returned r, ts2, w2, wd2) \<Rightarrow> Some (Inr PyNone, wd2)
                  | Some (Raised e, ts2, w2, wd2) \<Rightarrow> Some (Inl e, wd2)
                  | Some (_, ts2, w2, wd2) \<Rightarrow>
                      if ts = [] \<and> ts2 = [] then Some (Inl NameError, wd2)
                      else if expired w2 then Some (Inl ExecutionError, wd2)
                      else Some (Inr PyNone, wd2))
               else if ts = [] then Some (Inl NameError, wd')
               else if expired w then Some (Inl ExecutionError, wd')
               else Some (Inr PyNone, wd')))"

subsection \<open>\<open>get_events\<close> and \<open>wait_for_events\<close>\<close>

text \<open>
  An optional argument is \<open>None\<close> or a string; \<open>if obj_name:\<close> holds for a string that is
  not empty. \<open>yaml.load(...)['items']\<close> is the parameter \<open>items_of\<close>.
\<close>

definition selector :: "string \<Rightarrow> string option \<Rightarrow> string list" where
  "selector field v = (case v of None \<Rightarrow> [] | Some x \<Rightarrow> if x = [] then [] else [field @ x])"

definition get_events ::
  "(run_result \<Rightarrow> exc + string) \<Rightarrow> (string \<Rightarrow> exc + 'e list) \<Rightarrow>
     string option \<Rightarrow> string option \<Rightarrow> string option \<Rightarrow> string option \<Rightarrow> string option \<Rightarrow>
     world \<Rightarrow> ((exc + 'e list) \<times> world) option" where
  "get_events result items_of obj_name obj_namespace obj_type event_reason event_type wd =
     (let field_selector =
            selector ''involvedObject.name='' obj_name
            @ selector ''involvedObject.namespace='' obj_namespace
            @ selector ''involvedObject.kind='' obj_type
            @ selector ''reason='' event_reason
            @ selector ''type='' event_type
      in case cmd_run result (OcGetEvents field_selector) wd of
           None \<Rightarrow> None
         | Some (Inl e, wd') \<Rightarrow> Some (Inl e, wd')
         | Some (Inr out, wd') \<Rightarrow> Some (items_of out, wd'))"

definition events_body ::
  "(run_result \<Rightarrow> exc + string) \<Rightarrow> (string \<Rightarrow> exc + 'e list) \<Rightarrow>
     string option \<Rightarrow> string option \<Rightarrow> string option \<Rightarrow> string option \<Rightarrow> string option \<Rightarrow>
     (unit, 'e list) body" where
  "events_body result items_of obj_name obj_namespace obj_type event_reason event_type s wd =
     (case get_events result items_of obj_name obj_namespace obj_type event_reason event_type wd of
        None \<Rightarrow> None
      | Some (Inl e, wd') \<Rightarrow> Some (Raise e, wd')
      | Some (Inr events, wd') \<Rightarrow> Some (if events \<noteq> [] then Return events else Continue s, wd'))"

text \<open>On expiry the function logs the timeout and raises \<open>ExecutionError\<close>.\<close>

definition wait_for_events ::
  "(run_result \<Rightarrow> exc + string) \<Rightarrow> (string \<Rightarrow> exc + 'e list) \<Rightarrow>
     string option \<Rightarrow> string option \<Rightarrow> string option \<Rightarrow> string option \<Rightarrow> string option \<Rightarrow>
     int \<Rightarrow> int \<Rightarrow> world \<Rightarrow> 'e list option outcome" where
  "wait_for_events result items_of obj_name obj_namespace obj_type event_reason event_type
       timeout' wait_step wd =
     (case Waiter timeout' wait_step of
        Inl e \<Rightarrow> Some (Inl e, wd)
      | Inr w0 \<Rightarrow>
          (case for_waiter (events_body result items_of obj_name obj_namespace obj_type
                              event_reason event_type) () w0 wd of
             None \<Rightarrow> None
           | Some (Returned r, ts, w, wd') \<Rightarrow> Some (Inr (Some r), wd')
           | Some (Raised e, ts, w, wd') \<Rightarrow> Some (Inl e, wd')
           | Some (_, ts, w, wd') \<Rightarrow>
               if ts = [] then Some (Inl NameError, wd')
               else if expired w then Some (Inl ExecutionError, wd')
               else Some (Inr None, wd')))"

subsection \<open>\<open>oc_create\<close> and \<open>oc_create_sc\<close>\<close>

text \<open>
  \<open>json.dumps\<close> is not modelled: the value handed to \<open>oc create\<close> is the document itself.
  \<open>value\<close> is the file name, or the document piped to the command.
\<close>

definition oc_create :: "json \<Rightarrow> string \<Rightarrow> world \<Rightarrow> ((exc + unit) \<times> world) option" where
  "oc_create value' value_type wd =
     (case g_run (if value_type = ''file'' then OcCreateFile value' else OcCreateStdin value') wd of
        None \<Rightarrow> None
      | Some ((ret, out, err), wd') \<Rightarrow>
          Some (if ret \<noteq> 0 then Inl AssertionError else Inr (), wd'))"

definition allowed_parameters :: "string list" where
  "allowed_parameters =
     [''resturl'', ''secretnamespace'', ''restuser'', ''secretname'',
      ''restauthenabled'', ''restsecretnamespace'', ''restsecretname'',
      ''hacount'', ''clusterids'', ''chapauthenabled'', ''volumenameprefix'',
      ''volumeoptions'', ''volumetype'']"

text \<open>
  The keyword arguments are a dictionary, written as the list of its items; a key occurs
  once. \<open>d.pop(k)\<close> removes the key and raises \<open>KeyError\<close> for a key that is not there.
\<close>

definition dict_pop :: "string \<Rightarrow> (string \<times> 'v) list \<Rightarrow> exc + (string \<times> 'v) list" where
  "dict_pop k d =
     (if k \<in> set (map fst d) then Inr (filter (\<lambda>kv. fst kv \<noteq> k) d) else Inl KeyError)"

text \<open>
  \<open>for parameter in parameters.keys(): if parameter.lower() not in allowed_parameters:
  parameters.pop(parameter)\<close>. In Python 2 \<open>keys()\<close> is a list of its own, taken before
  the loop starts.
\<close>

fun pop_unknown :: "string list \<Rightarrow> (string \<times> 'v) list \<Rightarrow> exc + (string \<times> 'v) list" where
  "pop_unknown [] d = Inr d"
| "pop_unknown (parameter # keys) d =
     (if py_lower parameter \<notin> set allowed_parameters
      then (case dict_pop parameter d of Inl e \<Rightarrow> Inl e | Inr d' \<Rightarrow> pop_unknown keys d')
      else pop_unknown keys d)"

definition sc_data :: "string \<Rightarrow> string \<Rightarrow> (string \<times> json) list \<Rightarrow> bool \<Rightarrow> json" where
  "sc_data sc_name provisioner parameters allow_volume_expansion =
     JObj [(''kind'', JStr ''StorageClass''),
           (''apiVersion'', JStr ''storage.k8s.io/v1''),
           (''metadata'', JObj [(''name'', JStr sc_name)]),
           (''provisioner'', JStr provisioner),
           (''parameters'', JObj parameters),
           (''allowVolumeExpansion'', JBool allow_volume_expansion)]"

text \<open>
  \<open>utils.get_random_str\<close> is not among the sources; the string it returns is the
  parameter \<open>random_str\<close>.
\<close>

definition oc_create_sc ::
  "string \<Rightarrow> string \<Rightarrow> string \<Rightarrow> bool \<Rightarrow> (string \<times> json) list \<Rightarrow> world \<Rightarrow> string outcome" where
  "oc_create_sc random_str sc_name_prefix provisioner allow_volume_expansion parameters wd =
     (case pop_unknown (map fst parameters) parameters of
        Inl e \<Rightarrow> Some (Inl e, wd)
      | Inr parameters' \<Rightarrow>
          (let sc_name = sc_name_prefix @ ''-'' @ random_str
           in case oc_create (sc_data sc_name provisioner parameters' allow_volume_expansion)
                     ''stdin'' wd of
                None \<Rightarrow> None
              | Some (Inl e, wd') \<Rightarrow> Some (Inl e, wd')
              | Some (Inr _, wd') \<Rightarrow> Some (Inr sc_name, wd')))"

section \<open>Notions the properties are stated with\<close>

text \<open>
  Time does not run backwards while a loop body runs. Every body built from \<open>g_run\<close> has
  the property, since a command takes a natural number of seconds.
\<close>

definition clock_monotone :: "('s, 'r) body \<Rightarrow> bool" where
  "clock_monotone body \<longleftrightarrow>
     (\<forall>s wd c wd'. body s wd = Some (c, wd') \<longrightarrow> clock wd \<le> clock wd')"


text \<open>Consecutive times are at least \<open>i\<close> apart.\<close>

fun spaced :: "int \<Rightarrow> int list \<Rightarrow> bool" where
  "spaced i (t # u # ts) = (t + i \<le> u \<and> spaced i (u # ts))"
| "spaced i ts = True"

text \<open>A Waiter no \<open>for\<close> statement has been started on.\<close>

definition fresh :: "waiter \<Rightarrow> bool" where
  "fresh w \<longleftrightarrow> start_time w = None \<and> \<not> expired w"

text \<open>
  A loop body that asks the host one command, ignores the answer and goes on: the
  consumer that never breaks.
\<close>

definition probe_body :: "(unit, unit) body" where
  "probe_body s wd =
     (case g_run (OcGetPodsOfDc []) wd of
        None \<Rightarrow> None
      | Some (r, wd') \<Rightarrow> Some (Continue s, wd'))"

text \<open>
  One \<open>cmd_run\<close>, for concrete runs: it fails on an exit code other than zero and returns
  the output stripped otherwise.
\<close>

definition strict_result :: "run_result \<Rightarrow> exc + string" where
  "strict_result r =
     (case r of (ret, out, err) \<Rightarrow> if ret \<noteq> 0 then Inl AssertionError else Inr (py_strip out))"

section \<open>Facts about one tick request\<close>

lemma waiter_next_fresh:
  "start_time w = None \<Longrightarrow> waiter_next w wd = (Tick, w\<lparr>start_time := Some (clock wd)\<rparr>, wd)"
  by (simp add: waiter_next_def)

lemma waiter_next_expired:
  "start_time w = Some st \<Longrightarrow> timeout w \<le> clock wd - st \<Longrightarrow>
     waiter_next w wd = (StopIteration, w\<lparr>expired := True\<rparr>, wd)"
  by (simp add: waiter_next_def)

lemma waiter_next_granted:
  "start_time w = Some st \<Longrightarrow> clock wd - st < timeout w \<Longrightarrow>
     waiter_next w wd = (Tick, w, wd\<lparr>clock := clock wd + interval w\<rparr>)"
  by (simp add: waiter_next_def)

lemma waiter_next_cases:
  assumes "waiter_next w wd = (sg, w', wd')"
  obtains
    (Stop) st where "sg = StopIteration" "w' = w\<lparr>expired := True\<rparr>" "wd' = wd"
      "start_time w = Some st" "timeout w \<le> clock wd - st"
  | (First) "sg = Tick" "start_time w = None" "w' = w\<lparr>start_time := Some (clock wd)\<rparr>"
      "wd' = wd"
  | (Later) st where "sg = Tick" "w' = w" "wd' = wd\<lparr>clock := clock wd + interval w\<rparr>"
      "start_time w = Some st" "clock wd - st < timeout w"
proof (cases "start_time w")
  case None
  from assms[unfolded waiter_next_fresh[OF None]]
  have "sg = Tick" "w' = w\<lparr>start_time := Some (clock wd)\<rparr>" "wd' = wd"
    by blast+
  with None First show ?thesis by blast
next
  case (Some st)
  show ?thesis
  proof (cases "timeout w \<le> clock wd - st")
    case True
    from assms[unfolded waiter_next_expired[OF Some True]]
    have "sg = StopIteration" "w' = w\<lparr>expired := True\<rparr>" "wd' = wd"
      by blast+
    with Some True Stop show ?thesis by blast
  next
    case False
    then have lt: "clock wd - st < timeout w" by simp
    from assms[unfolded waiter_next_granted[OF Some lt]]
    have "sg = Tick" "w' = w" "wd' = wd\<lparr>clock := clock wd + interval w\<rparr>"
      by blast+
    with Some lt Later show ?thesis by blast
  qed
qed

lemma Waiter_Inr:
  "Waiter t i = Inr w \<longleftrightarrow>
     0 \<le> t \<and> 0 \<le> i \<and> w = \<lparr>timeout = t, interval = i, start_time = None, expired = False\<rparr>"
  by (auto simp: Waiter_def)

section \<open>Facts about the for statement\<close>

lemma iterate_stop:
  "waiter_next w wd = (StopIteration, w', wd') \<Longrightarrow>
     iterate body s w wd = Some (Exhausted s, [], w', wd')"
  by (subst iterate.simps) simp

lemma iterate_tick:
  "waiter_next w wd = (Tick, w', wd') \<Longrightarrow>
     iterate body s w wd =
       (case body s wd' of
          None \<Rightarrow> None
        | Some (Continue s', wd'') \<Rightarrow>
            if length (script wd'') < length (script wd)
            then map_option (\<lambda>(e, ts, r). (e, clock wd' # ts, r)) (iterate body s' w' wd'')
            else None
        | Some (Break s', wd'') \<Rightarrow> Some (Broke s', [clock wd'], w', wd'')
        | Some (Return r, wd'') \<Rightarrow> Some (Returned r, [clock wd'], w', wd'')
        | Some (Raise e, wd'') \<Rightarrow> Some (Raised e, [clock wd'], w', wd''))"
  by (subst iterate.simps) simp

lemma iterate_continue:
  assumes "waiter_next w wd = (Tick, w1, wd1)" and "body s wd1 = Some (Continue s2, wd2)"
    and "length (script wd2) < length (script wd)"
  shows "iterate body s w wd =
           (case iterate body s2 w1 wd2 of
              None \<Rightarrow> None
            | Some (e, ts, w', wd') \<Rightarrow> Some (e, clock wd1 # ts, w', wd'))"
  using assms by (simp add: iterate_tick split: option.splits)

text \<open>
  Every finished loop is built from its last tick request backwards: the rule below is
  induction over the iterations of a loop that ended.
\<close>

lemma iterate_result_induct [consumes 1, case_names Stop Break Return Raise Continue]:
  assumes run: "iterate body s w wd = Some (e, ts, w', wd')"
    and Stop: "\<And>s w wd w1 wd1.
      waiter_next w wd = (StopIteration, w1, wd1) \<Longrightarrow> P s w wd (Exhausted s) [] w1 wd1"
    and Break: "\<And>s w wd w1 wd1 s2 wd2.
      waiter_next w wd = (Tick, w1, wd1) \<Longrightarrow> body s wd1 = Some (Break s2, wd2) \<Longrightarrow>
        P s w wd (Broke s2) [clock wd1] w1 wd2"
    and Return: "\<And>s w wd w1 wd1 r wd2.
      waiter_next w wd = (Tick, w1, wd1) \<Longrightarrow> body s wd1 = Some (Return r, wd2) \<Longrightarrow>
        P s w wd (Returned r) [clock wd1] w1 wd2"
    and Raise: "\<And>s w wd w1 wd1 x wd2.
      waiter_next w wd = (Tick, w1, wd1) \<Longrightarrow> body s wd1 = Some (Raise x, wd2) \<Longrightarrow>
        P s w wd (Raised x) [clock wd1] w1 wd2"
    and Continue: "\<And>s w wd w1 wd1 s2 wd2 e ts w' wd'.
      waiter_next w wd = (Tick, w1, wd1) \<Longrightarrow> body s wd1 = Some (Continue s2, wd2) \<Longrightarrow>
      length (script wd2) < length (script wd) \<Longrightarrow>
      iterate body s2 w1 wd2 = Some (e, ts, w', wd') \<Longrightarrow>
      P s2 w1 wd2 e ts w' wd' \<Longrightarrow> P s w wd e (clock wd1 # ts) w' wd'"
  shows "P s w wd e ts w' wd'"
  using run
proof (induction n \<equiv> "length (script wd)" arbitrary: s w wd e ts w' wd' rule: less_induct)
  case less
  obtain sg w1 wd1 where nx: "waiter_next w wd = (sg, w1, wd1)"
    by (cases "waiter_next w wd") auto
  show ?case
  proof (cases sg)
    case StopIteration
    with nx less.prems Stop show ?thesis
      by (auto simp: iterate_stop)
  next
    case Tick
    note nx = nx[unfolded Tick]
    show ?thesis
    proof (cases "body s wd1")
      case None
      with nx less.prems show ?thesis by (simp add: iterate_tick)
    next
      case (Some p)
      obtain c wd2 where p: "p = (c, wd2)" by (cases p)
      note bd = Some[unfolded p]
      show ?thesis
      proof (cases c)
        case (Continue s2)
        note bd = bd[unfolded Continue]
        show ?thesis
        proof (cases "length (script wd2) < length (script wd)")
          case True
          from less.prems obtain ts2 where ts: "ts = clock wd1 # ts2"
            and rec: "iterate body s2 w1 wd2 = Some (e, ts2, w', wd')"
            by (auto simp: iterate_continue[where body=body, OF nx bd True]
                split: option.splits)
          from less.hyps[OF True rec] have "P s2 w1 wd2 e ts2 w' wd'" .
          from assms(6)[OF nx bd True rec this] ts show ?thesis by simp
        next
          case False
          with nx bd less.prems show ?thesis by (simp add: iterate_tick)
        qed
      next
        case (Break s2)
        with nx bd less.prems assms(3)[OF nx] show ?thesis by (auto simp: iterate_tick)
      next
        case (Return r)
        with nx bd less.prems assms(4)[OF nx] show ?thesis by (auto simp: iterate_tick)
      next
        case (Raise x)
        with nx bd less.prems assms(5)[OF nx] show ?thesis by (auto simp: iterate_tick)
      qed
    qed
  qed
qed

lemma iterate_expired:
  "iterate body s w wd = Some (e, ts, w', wd') \<Longrightarrow>
     expired w' = (expired w \<or> (\<exists>s'. e = Exhausted s'))"
  by (induction rule: iterate_result_induct) (auto elim!: waiter_next_cases)

lemma iterate_started:
  "iterate body s w wd = Some (e, ts, w', wd') \<Longrightarrow>
     start_time w' = (case start_time w of None \<Rightarrow> Some (clock wd) | Some st \<Rightarrow> Some st)"
  by (induction rule: iterate_result_induct) (auto elim!: waiter_next_cases)

lemma iterate_first_tick:
  "iterate body s w wd = Some (e, ts, w', wd') \<Longrightarrow> start_time w = None \<Longrightarrow>
     ts \<noteq> [] \<and> hd ts = clock wd"
  by (induction rule: iterate_result_induct) (auto elim!: waiter_next_cases)

lemma iterate_no_break:
  "iterate body s w wd = Some (e, ts, w', wd') \<Longrightarrow>
   (\<And>s wd s' wd'. body s wd \<noteq> Some (Break s', wd')) \<Longrightarrow> e \<noteq> Broke s''"
  by (induction rule: iterate_result_induct) (auto elim!: waiter_next_cases)

lemma iterate_iterated:
  "iterate body s w wd = Some (e, ts, w', wd') \<Longrightarrow>
   (\<And>s wd c wd'. body s wd = Some (c, wd') \<Longrightarrow> iterated wd' = iterated wd) \<Longrightarrow>
   iterated wd' = iterated wd"
  by (induction rule: iterate_result_induct) (auto elim!: waiter_next_cases)


lemma spaced_nth: "spaced i ts \<Longrightarrow> Suc k < length ts \<Longrightarrow> ts ! k + i \<le> ts ! Suc k"
proof (induction i ts arbitrary: k rule: spaced.induct)
  case (1 i t u ts)
  then show ?case by (cases k) auto
qed auto

lemma iterate_spaced:
  "iterate body s w wd = Some (e, ts, w', wd') \<Longrightarrow> clock_monotone body \<Longrightarrow>
     spaced (interval w) ts \<and>
     (ts \<noteq> [] \<longrightarrow> hd ts = (if start_time w = None then clock wd else clock wd + interval w))"
proof (induction rule: iterate_result_induct)
  case (Continue s w wd w1 wd1 s2 wd2 e ts w' wd')
  from Continue.hyps(2) Continue.prems have mono: "clock wd1 \<le> clock wd2"
    by (auto simp: clock_monotone_def)
  from Continue.hyps(1) have st1: "start_time w1 \<noteq> None" and iv: "interval w1 = interval w"
    by (auto elim!: waiter_next_cases)
  from Continue.IH[OF Continue.prems] st1 iv
  have sp: "spaced (interval w) ts" and hd: "ts \<noteq> [] \<longrightarrow> hd ts = clock wd2 + interval w"
    by auto
  have "spaced (interval w) (clock wd1 # ts)"
  proof (cases ts)
    case (Cons u us)
    with sp hd mono show ?thesis by simp
  qed simp
  moreover from Continue.hyps(1)
  have "clock wd1 = (if start_time w = None then clock wd else clock wd + interval w)"
    by (auto elim!: waiter_next_cases)
  ultimately show ?case by simp
qed (auto elim!: waiter_next_cases)





lemma iterate_raised:
  "iterate body s w wd = Some (e, ts, w', wd') \<Longrightarrow> e = Raised x \<Longrightarrow>
     ts \<noteq> [] \<and> (\<exists>s1 wd1. body s1 wd1 = Some (Raise x, wd') \<and> clock wd1 = last ts)"
  by (induction rule: iterate_result_induct) auto

section \<open>The Waiter: properties\<close>

text \<open>
  C6. The timeout is looked at only when a tick is requested: whether a started session
  produces a tick depends on the time elapsed at the request and on nothing else. A
  request made while the elapsed time is below the timeout sleeps for the interval and
  then produces the tick, whatever the clock says after the sleep: the Waiter and its
  \<open>expired\<close> flag are unchanged and the clock has moved by the interval.
\<close>

theorem granted_tick_is_produced:
  assumes "start_time w = Some st"
  shows "(clock wd - st < timeout w \<longrightarrow>
            waiter_next w wd = (Tick, w, wd\<lparr>clock := clock wd + interval w\<rparr>))
         \<and> (fst (waiter_next w wd) = Tick \<longleftrightarrow> clock wd - st < timeout w)"
proof (cases "clock wd - st < timeout w")
  case True
  with assms show ?thesis by (simp add: waiter_next_granted)
next
  case False
  with assms show ?thesis by (simp add: waiter_next_expired)
qed

text \<open>
  A session of timeout 5 and interval 10 that started at 0 is asked at 4: the tick comes at
  14, well past the timeout.
\<close>

theorem granted_tick_is_produced_witness:
  "start_time \<lparr>timeout = 5, interval = 10, start_time = Some 0, expired = False\<rparr> = Some 0
   \<and> clock \<lparr>clock = 4, script = [], ran = [], iterated = []\<rparr> - 0
       < timeout \<lparr>timeout = 5, interval = 10, start_time = Some 0, expired = False\<rparr>
   \<and> waiter_next \<lparr>timeout = 5, interval = 10, start_time = Some 0, expired = False\<rparr>
        \<lparr>clock = 4, script = [], ran = [], iterated = []\<rparr>
      = (Tick, \<lparr>timeout = 5, interval = 10, start_time = Some 0, expired = False\<rparr>,
         \<lparr>clock = 14, script = [], ran = [], iterated = []\<rparr>)"
proof -
  let ?w = "\<lparr>timeout = 5, interval = 10, start_time = Some (0::int), expired = False\<rparr>"
  let ?wd = "\<lparr>clock = 4, script = [], ran = [], iterated = []\<rparr>"
  have h1: "start_time ?w = Some 0" by simp
  have h2: "clock ?wd - 0 < timeout ?w" by simp
  from granted_tick_is_produced[OF h1, THEN conjunct1, rule_format, OF h2]
  have "waiter_next ?w ?wd = (Tick, ?w, \<lparr>clock = 14, script = [], ran = [], iterated = []\<rparr>)"
    by simp
  with h1 h2 show ?thesis by blast
qed

lemma g_run_clock: "g_run c wd = Some (r, wd') \<Longrightarrow> clock wd \<le> clock wd'"
  by (auto simp: g_run_def split: list.splits)

lemma g_run_script:
  "g_run c wd = Some (r, wd') \<Longrightarrow> Suc (length (script wd')) = length (script wd)"
  by (auto simp: g_run_def split: list.splits)

lemma g_run_iterated: "g_run c wd = Some (r, wd') \<Longrightarrow> iterated wd' = iterated wd"
  by (auto simp: g_run_def split: list.splits)


lemma probe_body_monotone: "clock_monotone probe_body"
  by (auto simp: clock_monotone_def probe_body_def split: option.splits dest: g_run_clock)

lemma probe_session_5_2:
  "for_waiter probe_body () \<lparr>timeout = 5, interval = 2, start_time = None, expired = False\<rparr>
      \<lparr>clock = 0, script = [(1, (0, [], [])), (1, (0, [], [])), (1, (0, [], []))], ran = [],
        iterated = []\<rparr>
   = Some (Exhausted (), [0, 3, 6],
       \<lparr>timeout = 5, interval = 2, start_time = Some 0, expired = True\<rparr>,
       \<lparr>clock = 7, script = [], ran = [OcGetPodsOfDc [], OcGetPodsOfDc [], OcGetPodsOfDc []],
         iterated = [\<lparr>timeout = 5, interval = 2, start_time = None, expired = False\<rparr>]\<rparr>)"
  by (simp add: for_waiter_def iterate.simps waiter_next_def probe_body_def g_run_def)

lemma pod_ready_fails:
  assumes "script wd = (d, (ret, out, err)) # rest" "ret \<noteq> 0"
  shows "pod_ready_body p s wd =
           Some (Raise ExecutionError,
                 wd\<lparr>clock := clock wd + int d, script := rest,
                    ran := ran wd @ [OcGetPodReady p]\<rparr>)"
  using assms by (simp add: pod_ready_body_def g_run_def)

lemma pod_ready_second_probe_fails:
  "for_waiter (pod_ready_body ''p'') ()
      \<lparr>timeout = 100, interval = 5, start_time = None, expired = False\<rparr>
      \<lparr>clock = 0,
        script = [(1, (0, ''false Pending'', [])), (2, (1, [], ''boom'')),
                  (1, (0, ''true Running'', []))],
        ran = [], iterated = []\<rparr>
   = Some (Raised ExecutionError, [0, 6],
       \<lparr>timeout = 100, interval = 5, start_time = Some 0, expired = False\<rparr>,
       \<lparr>clock = 8, script = [(1, (0, ''true Running'', []))],
         ran = [OcGetPodReady ''p'', OcGetPodReady ''p''],
         iterated = [\<lparr>timeout = 100, interval = 5, start_time = None, expired = False\<rparr>]\<rparr>)"
  by (simp add: for_waiter_def iterate.simps waiter_next_def pod_ready_body_def g_run_def
        py_split_def py_strip_def is_space_def)

text \<open>
  C5. The first tick of a session is produced at once: the request leaves the world, and
  so the clock, as it is. Every later tick is produced after a sleep of one interval. In a
  finished loop over a Waiter that had not started, the first tick comes at the time the
  loop starts and two consecutive ticks are at least one interval apart (the time the
  loop body takes comes on top).
\<close>

theorem ticks_are_spaced:
  "(start_time w = None \<longrightarrow>
      waiter_next w wd = (Tick, w\<lparr>start_time := Some (clock wd)\<rparr>, wd))
   \<and> (start_time w \<noteq> None \<and> waiter_next w wd = (Tick, w1, wd1) \<longrightarrow>
        wd1 = wd\<lparr>clock := clock wd + interval w\<rparr>)
   \<and> (start_time w = None \<and> clock_monotone body
        \<and> for_waiter body s w wd = Some (e, ts, w', wd') \<longrightarrow>
        hd ts = clock wd \<and> (\<forall>k. Suc k < length ts \<longrightarrow> ts ! k + interval w \<le> ts ! Suc k))"
proof (intro conjI impI)
  assume "start_time w = None"
  then show "waiter_next w wd = (Tick, w\<lparr>start_time := Some (clock wd)\<rparr>, wd)"
    by (rule waiter_next_fresh)
next
  assume "start_time w \<noteq> None \<and> waiter_next w wd = (Tick, w1, wd1)"
  then show "wd1 = wd\<lparr>clock := clock wd + interval w\<rparr>"
    by (auto elim!: waiter_next_cases)
next
  assume a: "start_time w = None \<and> clock_monotone body
        \<and> for_waiter body s w wd = Some (e, ts, w', wd')"
  let ?wd = "wd\<lparr>iterated := iterated wd @ [w]\<rparr>"
  from a have run: "iterate body s w ?wd = Some (e, ts, w', wd')" and fr: "start_time w = None"
    and mono: "clock_monotone body"
    by (simp_all add: for_waiter_def)
  from iterate_first_tick[OF run fr] show "hd ts = clock wd" by simp
  from iterate_spaced[OF run mono] have "spaced (interval w) ts" by simp
  then show "\<forall>k. Suc k < length ts \<longrightarrow> ts ! k + interval w \<le> ts ! Suc k"
    by (blast intro: spaced_nth)
qed

text \<open>
  Witness: \<open>Waiter(5, 2)\<close> with a body that takes one second gives ticks at 0, 3 and 6.
\<close>

theorem ticks_are_spaced_witness:
  "waiter_next \<lparr>timeout = 5, interval = 2, start_time = None, expired = False\<rparr>
       \<lparr>clock = 0, script = [], ran = [], iterated = []\<rparr>
     = (Tick, \<lparr>timeout = 5, interval = 2, start_time = Some 0, expired = False\<rparr>,
        \<lparr>clock = 0, script = [], ran = [], iterated = []\<rparr>)
   \<and> waiter_next \<lparr>timeout = 5, interval = 2, start_time = Some 0, expired = False\<rparr>
       \<lparr>clock = 1, script = [], ran = [], iterated = []\<rparr>
     = (Tick, \<lparr>timeout = 5, interval = 2, start_time = Some 0, expired = False\<rparr>,
        \<lparr>clock = 3, script = [], ran = [], iterated = []\<rparr>)
   \<and> clock_monotone probe_body
   \<and> for_waiter probe_body () \<lparr>timeout = 5, interval = 2, start_time = None, expired = False\<rparr>
      \<lparr>clock = 0, script = [(1, (0, [], [])), (1, (0, [], [])), (1, (0, [], []))], ran = [],
        iterated = []\<rparr>
   = Some (Exhausted (), [0, 3, 6],
       \<lparr>timeout = 5, interval = 2, start_time = Some 0, expired = True\<rparr>,
       \<lparr>clock = 7, script = [], ran = [OcGetPodsOfDc [], OcGetPodsOfDc [], OcGetPodsOfDc []],
         iterated = [\<lparr>timeout = 5, interval = 2, start_time = None, expired = False\<rparr>]\<rparr>)
   \<and> [0, 3, 6] ! 0 + (2::int) \<le> [0, 3, 6] ! Suc 0
   \<and> [0, 3, 6] ! 1 + (2::int) \<le> [0, 3, 6] ! Suc 1"
proof -
  let ?w = "\<lparr>timeout = 5, interval = 2, start_time = None, expired = False\<rparr>"
  let ?ws = "\<lparr>timeout = 5, interval = 2, start_time = Some 0, expired = False\<rparr>"
  let ?wd = "\<lparr>clock = 0, script = [(1, (0, [], [])), (1, (0, [], [])), (1, (0, [], []))],
              ran = [], iterated = []\<rparr>"
  let ?ea = "\<lparr>clock = 0, script = [], ran = [], iterated = []\<rparr>"
  let ?eb = "\<lparr>clock = 1, script = [], ran = [], iterated = []\<rparr>"
  let ?ec = "\<lparr>clock = 3, script = [], ran = [], iterated = []\<rparr>"
  have a: "waiter_next ?w ?ea = (Tick, ?ws, ?ea)"
    using ticks_are_spaced[where w = ?w and wd = ?ea, THEN conjunct1] by simp
  have b0: "waiter_next ?ws ?eb = (Tick, ?ws, ?ec)"
    by (simp add: waiter_next_def)
  have "?ec = ?eb\<lparr>clock := clock ?eb + interval ?ws\<rparr>"
    using ticks_are_spaced[where w = ?ws and wd = ?eb and ?w1.0 = ?ws and ?wd1.0 = ?ec,
        THEN conjunct2, THEN conjunct1] b0 by simp
  note m = probe_body_monotone
  note run = probe_session_5_2
  have sp: "\<forall>k. Suc k < length [0, 3, 6::int] \<longrightarrow>
              [0, 3, 6] ! k + interval ?w \<le> [0, 3, 6::int] ! Suc k"
    using ticks_are_spaced[where w = ?w and wd = ?wd and body = probe_body and s = "()"
        and ts = "[0, 3, 6]", THEN conjunct2, THEN conjunct2, rule_format, THEN conjunct2]
      m run by simp
  from sp[rule_format, of 0] have c: "[0, 3, 6] ! 0 + (2::int) \<le> [0, 3, 6] ! Suc 0" by simp
  from sp[rule_format, of 1] have d: "[0, 3, 6] ! 1 + (2::int) \<le> [0, 3, 6] ! Suc 1" by simp
  from a b0 m run c d show ?thesis by blast
qed

text \<open>
  C7. An exception raised by the loop body during a tick ends the loop with that
  exception at once: no further tick is requested, the Waiter is as the tick left it
  (\<open>expired\<close> unchanged) and the world is the one the body left, so nothing slept and
  no command ran after the raise. In \<open>wait_for_pod_be_ready\<close> a command that fails
  raises \<open>ExecutionError\<close> out of the function and the remaining answers of the host
  are not asked for.
\<close>

theorem body_exception_propagates:
  "(waiter_next w wd = (Tick, w1, wd1) \<and> body s wd1 = Some (Raise x, wd2) \<longrightarrow>
      iterate body s w wd = Some (Raised x, [clock wd1], w1, wd2))
   \<and> (for_waiter body s w wd = Some (Raised x, ts, w', wd') \<longrightarrow>
        expired w' = expired w \<and> ts \<noteq> []
        \<and> (\<exists>s1 wd1. body s1 wd1 = Some (Raise x, wd') \<and> clock wd1 = last ts))
   \<and> (0 \<le> t \<and> 0 < i \<and> script wd = (d, (ret, out, err)) # rest \<and> ret \<noteq> 0 \<longrightarrow>
        wait_for_pod_be_ready p t i wd =
          Some (Inl ExecutionError,
                wd\<lparr>clock := clock wd + int d, script := rest,
                   ran := ran wd @ [OcGetPodReady p],
                   iterated := iterated wd
                     @ [\<lparr>timeout = t, interval = i, start_time = None, expired = False\<rparr>]\<rparr>))"
proof (intro conjI impI)
  assume "waiter_next w wd = (Tick, w1, wd1) \<and> body s wd1 = Some (Raise x, wd2)"
  then show "iterate body s w wd = Some (Raised x, [clock wd1], w1, wd2)"
    by (simp add: iterate_tick)
next
  assume a: "for_waiter body s w wd = Some (Raised x, ts, w', wd')"
  then have run: "iterate body s w (wd\<lparr>iterated := iterated wd @ [w]\<rparr>)
                    = Some (Raised x, ts, w', wd')"
    by (simp add: for_waiter_def)
  from iterate_expired[OF run] show "expired w' = expired w" by simp
  from iterate_raised[OF run refl]
  show "ts \<noteq> []" "\<exists>s1 wd1. body s1 wd1 = Some (Raise x, wd') \<and> clock wd1 = last ts"
    by blast+
next
  assume a: "0 \<le> t \<and> 0 < i \<and> script wd = (d, (ret, out, err)) # rest \<and> ret \<noteq> 0"
  let ?w = "\<lparr>timeout = t, interval = i, start_time = None, expired = False\<rparr>"
  let ?wd = "wd\<lparr>iterated := iterated wd @ [?w]\<rparr>"
  from a have W: "Waiter t i = Inr ?w" by (simp add: Waiter_def)
  have nx: "waiter_next ?w ?wd = (Tick, ?w\<lparr>start_time := Some (clock ?wd)\<rparr>, ?wd)"
    by (rule waiter_next_fresh) simp
  from a have "script ?wd = (d, (ret, out, err)) # rest" "ret \<noteq> 0" by simp_all
  from pod_ready_fails[OF this, of p "()"] nx
  have "iterate (pod_ready_body p) () ?w ?wd =
          Some (Raised ExecutionError, [clock ?wd], ?w\<lparr>start_time := Some (clock ?wd)\<rparr>,
                ?wd\<lparr>clock := clock ?wd + int d, script := rest,
                    ran := ran ?wd @ [OcGetPodReady p]\<rparr>)"
    by (simp add: iterate_tick)
  with W show "wait_for_pod_be_ready p t i wd =
          Some (Inl ExecutionError,
                wd\<lparr>clock := clock wd + int d, script := rest,
                   ran := ran wd @ [OcGetPodReady p],
                   iterated := iterated wd @ [?w]\<rparr>)"
    by (simp add: wait_for_pod_be_ready_def for_waiter_def)
qed

text \<open>
  Witness: the pod is pending at the first tick and the command fails at the second; the
  third answer of the host is never asked for.
\<close>

theorem body_exception_propagates_witness:
  "for_waiter (pod_ready_body ''p'') ()
      \<lparr>timeout = 100, interval = 5, start_time = None, expired = False\<rparr>
      \<lparr>clock = 0,
        script = [(1, (0, ''false Pending'', [])), (2, (1, [], ''boom'')),
                  (1, (0, ''true Running'', []))],
        ran = [], iterated = []\<rparr>
   = Some (Raised ExecutionError, [0, 6],
       \<lparr>timeout = 100, interval = 5, start_time = Some 0, expired = False\<rparr>,
       \<lparr>clock = 8, script = [(1, (0, ''true Running'', []))],
         ran = [OcGetPodReady ''p'', OcGetPodReady ''p''],
         iterated = [\<lparr>timeout = 100, interval = 5, start_time = None, expired = False\<rparr>]\<rparr>)
   \<and> (\<exists>s1 wd1. pod_ready_body ''p'' s1 wd1
          = Some (Raise ExecutionError,
              \<lparr>clock = 8, script = [(1, (0, ''true Running'', []))],
                ran = [OcGetPodReady ''p'', OcGetPodReady ''p''],
                iterated = [\<lparr>timeout = 100, interval = 5, start_time = None,
                              expired = False\<rparr>]\<rparr>)
          \<and> clock wd1 = last [0, 6])
   \<and> iterate (pod_ready_body ''p'') ()
        \<lparr>timeout = 100, interval = 5, start_time = Some 0, expired = False\<rparr>
        \<lparr>clock = 1, script = [(2, (1, [], ''boom'')), (1, (0, ''true Running'', []))],
          ran = [], iterated = []\<rparr>
     = Some (Raised ExecutionError, [6],
         \<lparr>timeout = 100, interval = 5, start_time = Some 0, expired = False\<rparr>,
         \<lparr>clock = 8, script = [(1, (0, ''true Running'', []))], ran = [OcGetPodReady ''p''],
           iterated = []\<rparr>)
   \<and> wait_for_pod_be_ready ''p'' 100 5
        \<lparr>clock = 0, script = [(2, (1, [], ''boom'')), (1, (0, ''true Running'', []))],
          ran = [], iterated = []\<rparr>
     = Some (Inl ExecutionError,
         \<lparr>clock = 2, script = [(1, (0, ''true Running'', []))], ran = [OcGetPodReady ''p''],
           iterated = [\<lparr>timeout = 100, interval = 5, start_time = None, expired = False\<rparr>]\<rparr>)"
proof -
  let ?w = "\<lparr>timeout = 100, interval = 5, start_time = None, expired = False\<rparr>"
  let ?ws = "\<lparr>timeout = 100, interval = 5, start_time = Some 0, expired = False\<rparr>"
  let ?wd = "\<lparr>clock = 0,
        script = [(1, (0, ''false Pending'', [])), (2, (1, [], ''boom'')),
                  (1, (0, ''true Running'', []))],
        ran = [], iterated = []\<rparr>"
  let ?wdz = "\<lparr>clock = 8, script = [(1, (0, ''true Running'', []))],
         ran = [OcGetPodReady ''p'', OcGetPodReady ''p''], iterated = [?w]\<rparr>"
  let ?wa = "\<lparr>clock = 1, script = [(2, (1, [], ''boom'')), (1, (0, ''true Running'', []))],
          ran = [], iterated = []\<rparr>"
  let ?wb = "\<lparr>clock = 6, script = [(2, (1, [], ''boom'')), (1, (0, ''true Running'', []))],
          ran = [], iterated = []\<rparr>"
  let ?wc = "\<lparr>clock = 8, script = [(1, (0, ''true Running'', []))], ran = [OcGetPodReady ''p''],
           iterated = []\<rparr>"
  let ?wf = "\<lparr>clock = 0, script = [(2, (1, [], ''boom'')), (1, (0, ''true Running'', []))],
          ran = [], iterated = []\<rparr>"
  note run = pod_ready_second_probe_fails
  from body_exception_propagates[where body = "pod_ready_body ''p''" and s = "()" and w = ?w
      and wd = ?wd and x = ExecutionError and ts = "[0, 6]" and w' = ?ws and wd' = ?wdz,
      THEN conjunct2, THEN conjunct1, rule_format, OF run]
  have b: "\<exists>s1 wd1. pod_ready_body ''p'' s1 wd1 = Some (Raise ExecutionError, ?wdz)
             \<and> clock wd1 = last [0, 6]"
    by blast
  have nx: "waiter_next ?ws ?wa = (Tick, ?ws, ?wb)" by (simp add: waiter_next_def)
  have bd: "pod_ready_body ''p'' () ?wb = Some (Raise ExecutionError, ?wc)"
    by (simp add: pod_ready_body_def g_run_def)
  from body_exception_propagates[where body = "pod_ready_body ''p''" and s = "()" and w = ?ws
      and wd = ?wa and ?w1.0 = ?ws and ?wd1.0 = ?wb and x = ExecutionError and ?wd2.0 = ?wc,
      THEN conjunct1, rule_format, OF conjI, OF nx bd]
  have c: "iterate (pod_ready_body ''p'') () ?ws ?wa = Some (Raised ExecutionError, [6], ?ws, ?wc)"
    by simp
  have h: "(0::int) \<le> 100 \<and> (0::int) < 5
             \<and> script ?wf = (2, (1, [], ''boom'')) # [(1, (0, ''true Running'', []))]
             \<and> (1::int) \<noteq> 0"
    by simp
  from body_exception_propagates[where wd = ?wf and p = "''p''",
      THEN conjunct2, THEN conjunct2, rule_format, OF h]
  have d: "wait_for_pod_be_ready ''p'' 100 5 ?wf
     = Some (Inl ExecutionError,
         \<lparr>clock = 2, script = [(1, (0, ''true Running'', []))], ran = [OcGetPodReady ''p''],
           iterated = [?w]\<rparr>)"
    by simp
  from run b c d show ?thesis by blast
qed


section \<open>The polling functions: properties\<close>

lemma cmd_run_facts:
  assumes "cmd_run result c wd = Some (r, wd')"
  shows "clock wd \<le> clock wd'" "Suc (length (script wd')) = length (script wd)"
    "iterated wd' = iterated wd"
  using assms
  by (auto simp: cmd_run_def split: option.splits
        dest: g_run_clock g_run_script g_run_iterated)

lemma pod_ready_body_facts:
  assumes "pod_ready_body p s wd = Some (c, wd')"
  shows "clock wd \<le> clock wd'" "Suc (length (script wd')) = length (script wd)"
    "iterated wd' = iterated wd" "c \<noteq> Break s'"
  using assms
  by (auto simp: pod_ready_body_def split: option.splits if_splits list.splits
        dest: g_run_clock g_run_script g_run_iterated)


lemma pvc_size_body_facts:
  assumes "pvc_size_body result p sz s wd = Some (c, wd')"
  shows "clock wd \<le> clock wd'" "Suc (length (script wd')) = length (script wd)"
    "iterated wd' = iterated wd" "c \<noteq> Break s'" "c = Continue s2 \<Longrightarrow> s2 \<noteq> None"
  using assms
  by (auto simp: pvc_size_body_def split: option.splits if_splits sum.splits
        dest: cmd_run_facts)





lemma for_waiter_expired:
  assumes "Waiter t i = Inr w0" "for_waiter body s w0 wd = Some (e, ts, w', wd')"
  shows "expired w' \<longleftrightarrow> (\<exists>s'. e = Exhausted s')" "ts \<noteq> []"
proof -
  from assms(1) have w0: "start_time w0 = None" "\<not> expired w0"
    by (auto simp: Waiter_Inr)
  from assms(2) have it: "iterate body s w0 (wd\<lparr>iterated := iterated wd @ [w0]\<rparr>)
      = Some (e, ts, w', wd')"
    by (simp add: for_waiter_def)
  from iterate_expired[OF it] w0 show "expired w' \<longleftrightarrow> (\<exists>s'. e = Exhausted s')" by simp
  from iterate_first_tick[OF it w0(1)] show "ts \<noteq> []" by simp
qed




lemma get_pvc_status_facts:
  assumes "get_pvc_status p wd = Some (r, wd')"
  shows "clock wd \<le> clock wd'" "Suc (length (script wd')) = length (script wd)"
    "iterated wd' = iterated wd"
  using assms
  by (auto simp: get_pvc_status_def split: option.splits
        dest: g_run_clock g_run_script g_run_iterated)

lemma pvc_bound_body_status:
  assumes "get_pvc_status p wd = Some ((True, status), wd1)"
  shows "pvc_bound_body p n wd =
           Some (if status = [] then (if 0 < n then Raise AssertionError else Continue (n + 1))
                 else if status = ''Pending'' then Continue n
                 else if status = ''Bound'' then Return (PyStr p)
                 else Raise AssertionError, wd1)"
  using assms by (simp add: pvc_bound_body_def raise_if_msg_def quoted_def)

lemma pvc_bound_body_failed:
  assumes "get_pvc_status p wd = Some ((False, x), wd1)"
  shows "pvc_bound_body p n wd = Some (Raise ExecutionError, wd1)"
  using assms by (simp add: pvc_bound_body_def)

lemma pvc_bound_body_facts:
  assumes "pvc_bound_body p n wd = Some (c, wd')"
  shows "clock wd \<le> clock wd'" "Suc (length (script wd')) = length (script wd)"
    "iterated wd' = iterated wd" "c \<noteq> Break s'" "c = Return r \<Longrightarrow> r = PyStr p"
    "c = Raise x \<Longrightarrow> x = AssertionError \<or> x = ExecutionError"
proof -
  from assms obtain b status where g: "get_pvc_status p wd = Some ((b, status), wd')"
    by (auto simp: pvc_bound_body_def split: option.splits)
  from get_pvc_status_facts[OF g]
  show "clock wd \<le> clock wd'" "Suc (length (script wd')) = length (script wd)"
    "iterated wd' = iterated wd" .
  show "c \<noteq> Break s'" "c = Return r \<Longrightarrow> r = PyStr p"
    "c = Raise x \<Longrightarrow> x = AssertionError \<or> x = ExecutionError"
    using assms pvc_bound_body_status[of p wd _ wd' n] pvc_bound_body_failed[of p wd _ wd' n] g
    by (cases b; auto split: if_splits)+
qed

lemma pvc_bound_no_break: "pvc_bound_body p s wd \<noteq> Some (Break s', wd')"
  using pvc_bound_body_facts(4) by blast

lemma pvc_bound_returned:
  "iterate (pvc_bound_body p) s w wd = Some (e, ts, w', wd') \<Longrightarrow>
     (\<forall>r. e = Returned r \<longrightarrow> r = PyStr p)
     \<and> (\<forall>x. e = Raised x \<longrightarrow> x = AssertionError \<or> x = ExecutionError)"
  by (induction rule: iterate_result_induct)
     (auto dest: pvc_bound_body_facts(5) pvc_bound_body_facts(6))

lemma get_pvc_status_ok:
  assumes "script wd = (d, (0, out, err)) # rest"
  shows "get_pvc_status p wd =
           Some ((True, py_strip (first_line (py_strip out))),
                 wd\<lparr>clock := clock wd + int d, script := rest,
                    ran := ran wd @ [OcGetPvcStatus p]\<rparr>)"
  using assms by (simp add: get_pvc_status_def g_run_def)

lemma verify_pvc_status_is_bound_result:
  assumes W: "Waiter t i = Inr w0"
    and run: "for_waiter (pvc_bound_body p) 0 w0 wd = Some (e, ts, w', wd')"
  shows "verify_pvc_status_is_bound p t i wd =
           (case e of
              Returned r \<Rightarrow> Some (Inr (PyStr p), wd')
            | Raised x \<Rightarrow> Some (Inl x, wd')
            | _ \<Rightarrow> (case g_run (OcDescribePvc p) wd' of
                      None \<Rightarrow> None
                    | Some (a, wd'') \<Rightarrow> Some (Inl AssertionError, wd'')))"
proof -
  from run have it: "iterate (pvc_bound_body p) 0 w0 (wd\<lparr>iterated := iterated wd @ [w0]\<rparr>)
      = Some (e, ts, w', wd')"
    by (simp add: for_waiter_def)
  have nb: "e \<noteq> Broke s'" for s'
    using it by (rule iterate_no_break) (rule pvc_bound_no_break)
  note ex = for_waiter_expired[OF W run]
  show ?thesis
  proof (cases e)
    case (Exhausted s')
    with ex have "expired w'" "ts \<noteq> []" by simp_all
    with W run Exhausted show ?thesis by (simp add: verify_pvc_status_is_bound_def)
  next
    case (Broke s')
    with nb show ?thesis by blast
  next
    case (Returned r)
    with pvc_bound_returned[OF it] have "r = PyStr p" by simp
    with W run Returned show ?thesis by (simp add: verify_pvc_status_is_bound_def)
  next
    case (Raised x)
    with W run show ?thesis by (simp add: verify_pvc_status_is_bound_def)
  qed
qed

lemma verify_pvc_status_is_bound_value:
  assumes W: "Waiter t i = Inr w0"
    and res: "verify_pvc_status_is_bound p t i wd = Some (Inr v, wdz)"
  shows "v = PyStr p"
proof (cases "for_waiter (pvc_bound_body p) 0 w0 wd")
  case None
  with W res show ?thesis by (simp add: verify_pvc_status_is_bound_def)
next
  case (Some q)
  obtain e ts w' wd' where q: "q = (e, ts, w', wd')" by (cases q)
  from verify_pvc_status_is_bound_result[OF W Some[unfolded q]] res
  show ?thesis by (cases e) (auto split: option.splits)
qed

lemma verify_pvc_status_is_bound_first_probe:
  assumes W: "Waiter t i = Inr w0"
    and sc: "script wd = (d, (0, out, err)) # rest"
    and st: "status = py_strip (first_line (py_strip out))" "status \<noteq> []"
      "status \<noteq> ''Pending''"
  shows "verify_pvc_status_is_bound p t i wd =
           Some (if status = ''Bound'' then Inr (PyStr p) else Inl AssertionError,
                 wd\<lparr>clock := clock wd + int d, script := rest,
                    ran := ran wd @ [OcGetPvcStatus p],
                    iterated := iterated wd @ [w0]\<rparr>)"
proof -
  let ?wd = "wd\<lparr>iterated := iterated wd @ [w0]\<rparr>"
  let ?wd1 = "?wd\<lparr>clock := clock ?wd + int d, script := rest,
                    ran := ran ?wd @ [OcGetPvcStatus p]\<rparr>"
  from W have fr: "start_time w0 = None" by (simp add: Waiter_Inr)
  have nx: "waiter_next w0 ?wd = (Tick, w0\<lparr>start_time := Some (clock ?wd)\<rparr>, ?wd)"
    using fr by (rule waiter_next_fresh)
  from sc have "script ?wd = (d, (0, out, err)) # rest" by simp
  from get_pvc_status_ok[OF this, of p] st(1)
  have "get_pvc_status p ?wd = Some ((True, status), ?wd1)" by simp
  from pvc_bound_body_status[OF this, of 0] st(2,3)
  have bd: "pvc_bound_body p 0 ?wd =
      Some (if status = ''Bound'' then Return (PyStr p) else Raise AssertionError, ?wd1)"
    by simp
  have "for_waiter (pvc_bound_body p) 0 w0 wd =
      Some (if status = ''Bound'' then Returned (PyStr p) else Raised AssertionError,
            [clock ?wd], w0\<lparr>start_time := Some (clock ?wd)\<rparr>, ?wd1)"
    using nx bd by (simp add: for_waiter_def iterate_tick)
  from verify_pvc_status_is_bound_result[OF W this] show ?thesis by simp
qed

lemma pvc_bound_at_second_probe:
  "for_waiter (pvc_bound_body ''claim1'') 0
      \<lparr>timeout = 120, interval = 3, start_time = None, expired = False\<rparr>
      \<lparr>clock = 0, script = [(2, (0, ''Pending'', [])), (2, (0, '' Bound '', []))],
        ran = [], iterated = []\<rparr>
   = Some (Returned (PyStr ''claim1''), [0, 5],
       \<lparr>timeout = 120, interval = 3, start_time = Some 0, expired = False\<rparr>,
       \<lparr>clock = 7, script = [],
         ran = [OcGetPvcStatus ''claim1'', OcGetPvcStatus ''claim1''],
         iterated = [\<lparr>timeout = 120, interval = 3, start_time = None, expired = False\<rparr>]\<rparr>)"
  by (simp add: for_waiter_def iterate.simps waiter_next_def pvc_bound_body_def
        get_pvc_status_def g_run_def py_strip_def first_line_def is_space_def)

lemma pvc_bound_times_out:
  "for_waiter (pvc_bound_body ''claim1'') 0
      \<lparr>timeout = 0, interval = 3, start_time = None, expired = False\<rparr>
      \<lparr>clock = 0, script = [(2, (0, ''Pending'', [])), (2, (0, [], []))],
        ran = [], iterated = []\<rparr>
   = Some (Exhausted 0, [0],
       \<lparr>timeout = 0, interval = 3, start_time = Some 0, expired = True\<rparr>,
       \<lparr>clock = 2, script = [(2, (0, [], []))], ran = [OcGetPvcStatus ''claim1''],
         iterated = [\<lparr>timeout = 0, interval = 3, start_time = None, expired = False\<rparr>]\<rparr>)"
  by (simp add: for_waiter_def iterate.simps waiter_next_def pvc_bound_body_def
        get_pvc_status_def g_run_def py_strip_def first_line_def is_space_def)

text \<open>
  C9. \<open>verify_pvc_status_is_bound\<close> returns the name of the PVC, never \<open>None\<close>: its
  loop body returns the name when the status is \<open>Bound\<close>. The body raises
  \<open>AssertionError\<close> on the status \<open>Error\<close> and on every status it does not know, and
  the function raises what its body raised. After a loop exhausted by the timeout the
  function runs one more command on the host and raises \<open>AssertionError\<close>. A first
  answer with a status other than empty or \<open>Pending\<close> ends the function at once: with
  the name for \<open>Bound\<close>, with \<open>AssertionError\<close> otherwise.
\<close>

theorem verify_pvc_status_is_bound_results:
  assumes "Waiter t i = Inr w0"
  shows
   "(get_pvc_status p wd = Some ((True, status), wd1) \<and> status = ''Bound'' \<longrightarrow>
       pvc_bound_body p n wd = Some (Return (PyStr p), wd1))
    \<and> (get_pvc_status p wd = Some ((True, status), wd1) \<and> status \<noteq> []
         \<and> status \<noteq> ''Pending'' \<and> status \<noteq> ''Bound'' \<longrightarrow>
       pvc_bound_body p n wd = Some (Raise AssertionError, wd1))
    \<and> (for_waiter (pvc_bound_body p) 0 w0 wd = Some (e, ts, w', wd') \<longrightarrow>
         verify_pvc_status_is_bound p t i wd =
           (case e of
              Returned r \<Rightarrow> Some (Inr (PyStr p), wd')
            | Raised x \<Rightarrow> Some (Inl x, wd')
            | _ \<Rightarrow> (case g_run (OcDescribePvc p) wd' of
                      None \<Rightarrow> None
                    | Some (a, wd'') \<Rightarrow> Some (Inl AssertionError, wd''))))
    \<and> (verify_pvc_status_is_bound p t i wd = Some (Inr v, wdz) \<longrightarrow> v = PyStr p)
    \<and> (script wd = (d, (0, out, err)) # rest
         \<and> py_strip (first_line (py_strip out)) \<noteq> []
         \<and> py_strip (first_line (py_strip out)) \<noteq> ''Pending'' \<longrightarrow>
       verify_pvc_status_is_bound p t i wd =
         Some (if py_strip (first_line (py_strip out)) = ''Bound'' then Inr (PyStr p)
               else Inl AssertionError,
               wd\<lparr>clock := clock wd + int d, script := rest,
                  ran := ran wd @ [OcGetPvcStatus p],
                  iterated := iterated wd @ [w0]\<rparr>))"
proof (intro conjI impI)
  assume "get_pvc_status p wd = Some ((True, status), wd1) \<and> status = ''Bound''"
  then show "pvc_bound_body p n wd = Some (Return (PyStr p), wd1)"
    using pvc_bound_body_status[of p wd status wd1 n] by simp
next
  assume "get_pvc_status p wd = Some ((True, status), wd1) \<and> status \<noteq> []
         \<and> status \<noteq> ''Pending'' \<and> status \<noteq> ''Bound''"
  then show "pvc_bound_body p n wd = Some (Raise AssertionError, wd1)"
    using pvc_bound_body_status[of p wd status wd1 n] by simp
next
  assume "for_waiter (pvc_bound_body p) 0 w0 wd = Some (e, ts, w', wd')"
  from verify_pvc_status_is_bound_result[OF assms this]
  show "verify_pvc_status_is_bound p t i wd =
           (case e of
              Returned r \<Rightarrow> Some (Inr (PyStr p), wd')
            | Raised x \<Rightarrow> Some (Inl x, wd')
            | _ \<Rightarrow> (case g_run (OcDescribePvc p) wd' of
                      None \<Rightarrow> None
                    | Some (a, wd'') \<Rightarrow> Some (Inl AssertionError, wd'')))" .
next
  assume "verify_pvc_status_is_bound p t i wd = Some (Inr v, wdz)"
  from verify_pvc_status_is_bound_value[OF assms this] show "v = PyStr p" .
next
  assume a: "script wd = (d, (0, out, err)) # rest
         \<and> py_strip (first_line (py_strip out)) \<noteq> []
         \<and> py_strip (first_line (py_strip out)) \<noteq> ''Pending''"
  from verify_pvc_status_is_bound_first_probe[OF assms _ refl, of wd d out err rest p] a
  show "verify_pvc_status_is_bound p t i wd =
         Some (if py_strip (first_line (py_strip out)) = ''Bound'' then Inr (PyStr p)
               else Inl AssertionError,
               wd\<lparr>clock := clock wd + int d, script := rest,
                  ran := ran wd @ [OcGetPvcStatus p],
                  iterated := iterated wd @ [w0]\<rparr>)"
    by blast
qed

text \<open>
  Witness: a PVC bound at the second look, a timeout of 0 with a pending PVC, and the
  statuses \<open>Error\<close> and \<open>Lost\<close>.
\<close>

theorem verify_pvc_status_is_bound_results_witness:
  "Waiter 120 3 = Inr \<lparr>timeout = 120, interval = 3, start_time = None, expired = False\<rparr>
   \<and> Waiter 0 3 = Inr \<lparr>timeout = 0, interval = 3, start_time = None, expired = False\<rparr>
   \<and> verify_pvc_status_is_bound ''claim1'' 120 3
        \<lparr>clock = 0, script = [(2, (0, ''Pending'', [])), (2, (0, '' Bound '', []))],
          ran = [], iterated = []\<rparr>
     = Some (Inr (PyStr ''claim1''),
         \<lparr>clock = 7, script = [],
           ran = [OcGetPvcStatus ''claim1'', OcGetPvcStatus ''claim1''],
           iterated = [\<lparr>timeout = 120, interval = 3, start_time = None, expired = False\<rparr>]\<rparr>)
   \<and> verify_pvc_status_is_bound ''claim1'' 0 3
        \<lparr>clock = 0, script = [(2, (0, ''Pending'', [])), (2, (0, [], []))],
          ran = [], iterated = []\<rparr>
     = Some (Inl AssertionError,
         \<lparr>clock = 4, script = [],
           ran = [OcGetPvcStatus ''claim1'', OcDescribePvc ''claim1''],
           iterated = [\<lparr>timeout = 0, interval = 3, start_time = None, expired = False\<rparr>]\<rparr>)
   \<and> verify_pvc_status_is_bound ''claim1'' 120 3
        \<lparr>clock = 0, script = [(2, (0, ''Error'', []))], ran = [], iterated = []\<rparr>
     = Some (Inl AssertionError,
         \<lparr>clock = 2, script = [], ran = [OcGetPvcStatus ''claim1''],
           iterated = [\<lparr>timeout = 120, interval = 3, start_time = None, expired = False\<rparr>]\<rparr>)
   \<and> verify_pvc_status_is_bound ''claim1'' 120 3
        \<lparr>clock = 0, script = [(2, (0, ''Lost'', []))], ran = [], iterated = []\<rparr>
     = Some (Inl AssertionError,
         \<lparr>clock = 2, script = [], ran = [OcGetPvcStatus ''claim1''],
           iterated = [\<lparr>timeout = 120, interval = 3, start_time = None, expired = False\<rparr>]\<rparr>)
   \<and> pvc_bound_body ''claim1'' 0
        \<lparr>clock = 0, script = [(2, (0, '' Bound '', []))], ran = [], iterated = []\<rparr>
     = Some (Return (PyStr ''claim1''),
         \<lparr>clock = 2, script = [], ran = [OcGetPvcStatus ''claim1''], iterated = []\<rparr>)
   \<and> pvc_bound_body ''claim1'' 0
        \<lparr>clock = 0, script = [(2, (0, ''Error'', []))], ran = [], iterated = []\<rparr>
     = Some (Raise AssertionError,
         \<lparr>clock = 2, script = [], ran = [OcGetPvcStatus ''claim1''], iterated = []\<rparr>)"
proof -
  let ?w = "\<lparr>timeout = 120, interval = 3, start_time = None, expired = False\<rparr>"
  let ?v = "\<lparr>timeout = 0, interval = 3, start_time = None, expired = False\<rparr>"
  have W: "Waiter 120 3 = Inr ?w" and V: "Waiter 0 3 = Inr ?v" by (simp_all add: Waiter_def)
  have a: "verify_pvc_status_is_bound ''claim1'' 120 3
        \<lparr>clock = 0, script = [(2, (0, ''Pending'', [])), (2, (0, '' Bound '', []))],
          ran = [], iterated = []\<rparr>
     = Some (Inr (PyStr ''claim1''),
         \<lparr>clock = 7, script = [],
           ran = [OcGetPvcStatus ''claim1'', OcGetPvcStatus ''claim1''], iterated = [?w]\<rparr>)"
    using verify_pvc_status_is_bound_results[OF W, THEN conjunct2, THEN conjunct2,
        THEN conjunct1, rule_format, OF pvc_bound_at_second_probe] by simp
  have b: "verify_pvc_status_is_bound ''claim1'' 0 3
        \<lparr>clock = 0, script = [(2, (0, ''Pending'', [])), (2, (0, [], []))],
          ran = [], iterated = []\<rparr>
     = Some (Inl AssertionError,
         \<lparr>clock = 4, script = [],
           ran = [OcGetPvcStatus ''claim1'', OcDescribePvc ''claim1''], iterated = [?v]\<rparr>)"
    using verify_pvc_status_is_bound_results[OF V, THEN conjunct2, THEN conjunct2,
        THEN conjunct1, rule_format, OF pvc_bound_times_out] by (simp add: g_run_def)
  have st: "py_strip (first_line (py_strip ''Error'')) = ''Error''"
      "py_strip (first_line (py_strip ''Lost'')) = ''Lost''"
      "py_strip (first_line (py_strip '' Bound '')) = ''Bound''"
    by (simp_all add: py_strip_def first_line_def is_space_def)
  have c: "verify_pvc_status_is_bound ''claim1'' 120 3
        \<lparr>clock = 0, script = [(2, (0, ''Error'', []))], ran = [], iterated = []\<rparr>
     = Some (Inl AssertionError,
         \<lparr>clock = 2, script = [], ran = [OcGetPvcStatus ''claim1''], iterated = [?w]\<rparr>)"
    using verify_pvc_status_is_bound_results[OF W,
        where wd = "\<lparr>clock = 0, script = [(2, (0, ''Error'', []))], ran = [], iterated = []\<rparr>"
        and d = 2 and out = "''Error''" and err = "[]" and rest = "[]" and p = "''claim1''",
        THEN conjunct2, THEN conjunct2, THEN conjunct2, THEN conjunct2] st
    by simp
  have d: "verify_pvc_status_is_bound ''claim1'' 120 3
        \<lparr>clock = 0, script = [(2, (0, ''Lost'', []))], ran = [], iterated = []\<rparr>
     = Some (Inl AssertionError,
         \<lparr>clock = 2, script = [], ran = [OcGetPvcStatus ''claim1''], iterated = [?w]\<rparr>)"
    using verify_pvc_status_is_bound_results[OF W,
        where wd = "\<lparr>clock = 0, script = [(2, (0, ''Lost'', []))], ran = [], iterated = []\<rparr>"
        and d = 2 and out = "''Lost''" and err = "[]" and rest = "[]" and p = "''claim1''",
        THEN conjunct2, THEN conjunct2, THEN conjunct2, THEN conjunct2] st
    by simp
  have g1: "get_pvc_status ''claim1''
        \<lparr>clock = 0, script = [(2, (0, '' Bound '', []))], ran = [], iterated = []\<rparr>
      = Some ((True, ''Bound''),
          \<lparr>clock = 2, script = [], ran = [OcGetPvcStatus ''claim1''], iterated = []\<rparr>)"
    using st by (simp add: get_pvc_status_def g_run_def)
  have g2: "get_pvc_status ''claim1''
        \<lparr>clock = 0, script = [(2, (0, ''Error'', []))], ran = [], iterated = []\<rparr>
      = Some ((True, ''Error''),
          \<lparr>clock = 2, script = [], ran = [OcGetPvcStatus ''claim1''], iterated = []\<rparr>)"
    using st by (simp add: get_pvc_status_def g_run_def)
  have e: "pvc_bound_body ''claim1'' 0
        \<lparr>clock = 0, script = [(2, (0, '' Bound '', []))], ran = [], iterated = []\<rparr>
     = Some (Return (PyStr ''claim1''),
         \<lparr>clock = 2, script = [], ran = [OcGetPvcStatus ''claim1''], iterated = []\<rparr>)"
    using verify_pvc_status_is_bound_results[OF W, THEN conjunct1, rule_format,
        OF conjI, OF g1 refl] .
  have f: "pvc_bound_body ''claim1'' 0
        \<lparr>clock = 0, script = [(2, (0, ''Error'', []))], ran = [], iterated = []\<rparr>
     = Some (Raise AssertionError,
         \<lparr>clock = 2, script = [], ran = [OcGetPvcStatus ''claim1''], iterated = []\<rparr>)"
    using verify_pvc_status_is_bound_results[OF W, where status = "''Error''",
        THEN conjunct2, THEN conjunct1, rule_format] g2 by simp
  from W V a b c d e f show ?thesis by blast
qed


section \<open>\<open>oc_create_sc\<close>: properties\<close>

lemma pop_unknown_filter:
  "distinct ks \<Longrightarrow> set ks \<subseteq> set (map fst d) \<Longrightarrow>
     pop_unknown ks d =
       Inr (filter (\<lambda>kv. fst kv \<in> set ks \<longrightarrow> py_lower (fst kv) \<in> set allowed_parameters) d)"
proof (induction ks arbitrary: d)
  case Nil
  then show ?case by simp
next
  case (Cons k ks)
  show ?case
  proof (cases "py_lower k \<in> set allowed_parameters")
    case True
    from Cons.prems have "distinct ks" "set ks \<subseteq> set (map fst d)" by auto
    from Cons.IH[OF this] True show ?thesis
      by (auto intro!: filter_cong)
  next
    case False
    let ?d = "filter (\<lambda>kv. fst kv \<noteq> k) d"
    from Cons.prems have pop: "dict_pop k d = Inr ?d" by (simp add: dict_pop_def)
    from Cons.prems have dk: "distinct ks" and nk: "k \<notin> set ks" by auto
    have "set ks \<subseteq> set (map fst ?d)"
    proof
      fix x assume x: "x \<in> set ks"
      with Cons.prems obtain kv where "kv \<in> set d" "fst kv = x" by auto
      moreover from x nk have "x \<noteq> k" by blast
      ultimately show "x \<in> set (map fst ?d)" by force
    qed
    note this = dk this
    from Cons.IH[OF this] False pop show ?thesis
      by (auto intro!: filter_cong)
  qed
qed

lemma lower_restuser: "py_lower ''RestUser'' = ''restuser''" "py_lower ''resturl'' = ''resturl''"
  "py_lower ''bogus'' = ''bogus''"
  by (simp_all add: py_lower_def lower_char_def)

lemma filter_example:
  "filter (\<lambda>kv. py_lower (fst kv) \<in> set allowed_parameters)
     [(''resturl'', JStr ''http://heketi:8080''), (''bogus'', JStr ''1''),
      (''RestUser'', JStr ''admin'')]
   = [(''resturl'', JStr ''http://heketi:8080''), (''RestUser'', JStr ''admin'')]"
  by (simp add: lower_restuser allowed_parameters_def)

text \<open>
  C10. For keyword parameters given as a dictionary (every key once), the loop of
  \<open>oc_create_sc\<close> raises nothing and leaves exactly the parameters whose name in lower
  case is in the list of allowed parameters. The document handed to \<open>oc create\<close> carries
  these parameters and no others, and when the command succeeds the function returns the
  name of the storage class.
\<close>

theorem oc_create_sc_drops_unknown_parameters:
  assumes "distinct (map fst parameters)"
  shows
   "pop_unknown (map fst parameters) parameters =
      Inr (filter (\<lambda>kv. py_lower (fst kv) \<in> set allowed_parameters) parameters)
    \<and> oc_create_sc random_str prefix provisioner allow parameters wd =
        (case oc_create
                (sc_data (prefix @ ''-'' @ random_str) provisioner
                   (filter (\<lambda>kv. py_lower (fst kv) \<in> set allowed_parameters) parameters) allow)
                ''stdin'' wd of
           None \<Rightarrow> None
         | Some (Inl e, wd') \<Rightarrow> Some (Inl e, wd')
         | Some (Inr u, wd') \<Rightarrow> Some (Inr (prefix @ ''-'' @ random_str), wd'))
    \<and> (script wd = (d, (0, out, err)) # rest \<longrightarrow>
         oc_create_sc random_str prefix provisioner allow parameters wd =
           Some (Inr (prefix @ ''-'' @ random_str),
                 wd\<lparr>clock := clock wd + int d, script := rest,
                    ran := ran wd
                      @ [OcCreateStdin
                          (sc_data (prefix @ ''-'' @ random_str) provisioner
                             (filter (\<lambda>kv. py_lower (fst kv) \<in> set allowed_parameters)
                                parameters) allow)]\<rparr>))"
proof -
  have pop: "pop_unknown (map fst parameters) parameters =
      Inr (filter (\<lambda>kv. py_lower (fst kv) \<in> set allowed_parameters) parameters)"
    using pop_unknown_filter[OF assms subset_refl]
    by (auto intro!: filter_cong)
  then have sc: "oc_create_sc random_str prefix provisioner allow parameters wd =
        (case oc_create
                (sc_data (prefix @ ''-'' @ random_str) provisioner
                   (filter (\<lambda>kv. py_lower (fst kv) \<in> set allowed_parameters) parameters) allow)
                ''stdin'' wd of
           None \<Rightarrow> None
         | Some (Inl e, wd') \<Rightarrow> Some (Inl e, wd')
         | Some (Inr u, wd') \<Rightarrow> Some (Inr (prefix @ ''-'' @ random_str), wd'))"
    by (simp add: oc_create_sc_def Let_def split: option.splits sum.splits prod.splits)
  have "script wd = (d, (0, out, err)) # rest \<longrightarrow>
         oc_create_sc random_str prefix provisioner allow parameters wd =
           Some (Inr (prefix @ ''-'' @ random_str),
                 wd\<lparr>clock := clock wd + int d, script := rest,
                    ran := ran wd
                      @ [OcCreateStdin
                          (sc_data (prefix @ ''-'' @ random_str) provisioner
                             (filter (\<lambda>kv. py_lower (fst kv) \<in> set allowed_parameters)
                                parameters) allow)]\<rparr>)"
    by (simp add: sc oc_create_def g_run_def)
  with pop sc show ?thesis by blast
qed

text \<open>
  Witness: \<open>bogus\<close> is dropped, \<open>resturl\<close> and \<open>RestUser\<close> are kept.
\<close>

theorem oc_create_sc_drops_unknown_parameters_witness:
  "distinct (map fst [(''resturl'', JStr ''http://heketi:8080''), (''bogus'', JStr ''1''),
                      (''RestUser'', JStr ''admin'')])
   \<and> pop_unknown [''resturl'', ''bogus'', ''RestUser'']
        [(''resturl'', JStr ''http://heketi:8080''), (''bogus'', JStr ''1''),
         (''RestUser'', JStr ''admin'')]
     = Inr [(''resturl'', JStr ''http://heketi:8080''), (''RestUser'', JStr ''admin'')]
   \<and> oc_create_sc ''x1y2'' ''autotests-sc'' ''kubernetes.io/glusterfs'' False
        [(''resturl'', JStr ''http://heketi:8080''), (''bogus'', JStr ''1''),
         (''RestUser'', JStr ''admin'')]
        \<lparr>clock = 0, script = [(1, (0, ''created'', []))], ran = [], iterated = []\<rparr>
     = Some (Inr ''autotests-sc-x1y2'',
         \<lparr>clock = 1, script = [],
           ran = [OcCreateStdin
                   (JObj [(''kind'', JStr ''StorageClass''),
                          (''apiVersion'', JStr ''storage.k8s.io/v1''),
                          (''metadata'', JObj [(''name'', JStr ''autotests-sc-x1y2'')]),
                          (''provisioner'', JStr ''kubernetes.io/glusterfs''),
                          (''parameters'',
                            JObj [(''resturl'', JStr ''http://heketi:8080''),
                                  (''RestUser'', JStr ''admin'')]),
                          (''allowVolumeExpansion'', JBool False)])],
           iterated = []\<rparr>)"
proof -
  let ?ps = "[(''resturl'', JStr ''http://heketi:8080''), (''bogus'', JStr ''1''),
              (''RestUser'', JStr ''admin'')]"
  let ?wd = "\<lparr>clock = 0, script = [(1, (0, ''created'', [])) ], ran = [], iterated = []\<rparr>"
  have h: "distinct (map fst ?ps)" by simp
  note t = oc_create_sc_drops_unknown_parameters[OF h]
  have a: "pop_unknown [''resturl'', ''bogus'', ''RestUser''] ?ps
     = Inr [(''resturl'', JStr ''http://heketi:8080''), (''RestUser'', JStr ''admin'')]"
    using t[THEN conjunct1] filter_example by simp
  have sc: "script ?wd = (1, (0, ''created'', [])) # []" by simp
  have b: "oc_create_sc ''x1y2'' ''autotests-sc'' ''kubernetes.io/glusterfs'' False ?ps ?wd
     = Some (Inr ''autotests-sc-x1y2'',
         \<lparr>clock = 1, script = [],
           ran = [OcCreateStdin
                   (JObj [(''kind'', JStr ''StorageClass''),
                          (''apiVersion'', JStr ''storage.k8s.io/v1''),
                          (''metadata'', JObj [(''name'', JStr ''autotests-sc-x1y2'')]),
                          (''provisioner'', JStr ''kubernetes.io/glusterfs''),
                          (''parameters'',
                            JObj [(''resturl'', JStr ''http://heketi:8080''),
                                  (''RestUser'', JStr ''admin'')]),
                          (''allowVolumeExpansion'', JBool False)])],
           iterated = []\<rparr>)"
    using t[where wd = ?wd and random_str = "''x1y2''" and prefix = "''autotests-sc''"
        and provisioner = "''kubernetes.io/glusterfs''" and allow = False,
        THEN conjunct2, THEN conjunct2, rule_format, OF sc] filter_example
    by (simp add: sc_data_def)
  from h a b show ?thesis by blast
qed


section \<open>One Waiter for each operation\<close>

lemma for_waiter_iterated:
  assumes "for_waiter body s w wd = Some (e, ts, w', wd')"
    and "\<And>s wd c wd'. body s wd = Some (c, wd') \<Longrightarrow> iterated wd' = iterated wd"
  shows "iterated wd' = iterated wd @ [w]"
proof -
  from assms(1) have "iterate body s w (wd\<lparr>iterated := iterated wd @ [w]\<rparr>)
      = Some (e, ts, w', wd')"
    by (simp add: for_waiter_def)
  from iterate_iterated[OF this assms(2)] show ?thesis by simp
qed

lemma pod_name_body_iterated:
  "pod_name_body dc s wd = Some (c, wd') \<Longrightarrow> iterated wd' = iterated wd"
  by (auto simp: pod_name_body_def split: option.splits dest: g_run_iterated)

lemma pv_size_body_iterated:
  "pv_size_body result p sz s wd = Some (c, wd') \<Longrightarrow> iterated wd' = iterated wd"
  by (auto simp: pv_size_body_def split: option.splits sum.splits dest: cmd_run_facts(3))

lemma events_body_iterated:
  "events_body result items_of a b c d e s wd = Some (x, wd') \<Longrightarrow> iterated wd' = iterated wd"
  by (auto simp: events_body_def get_events_def split: option.splits sum.splits
        dest: cmd_run_facts(3))

lemma absence_body_iterated:
  "absence_body yaml_load ed rtype name s wd = Some (c, wd') \<Longrightarrow> iterated wd' = iterated wd"
  by (auto simp: absence_body_def oc_get_yaml_def split: option.splits sum.splits
        dest: g_run_iterated)

lemma pv_claim_body_iterated:
  "pv_claim_body name s wd = Some (c, wd') \<Longrightarrow> iterated wd' = iterated wd"
  by (auto simp: pv_claim_body_def split: option.splits dest: g_run_iterated)

lemma wait_for_pod_be_ready_iterated:
  assumes "Waiter t i = Inr w0" "wait_for_pod_be_ready p t i wd = Some (r, wdz)"
  shows "iterated wdz = iterated wd @ [w0]"
proof (cases "for_waiter (pod_ready_body p) () w0 wd")
  case None
  with assms show ?thesis by (simp add: wait_for_pod_be_ready_def)
next
  case (Some q)
  obtain e ts w' wd' where q: "q = (e, ts, w', wd')" by (cases q)
  note run = Some[unfolded q]
  from for_waiter_iterated[OF run pod_ready_body_facts(3)]
  have "iterated wd' = iterated wd @ [w0]" .
  moreover from assms run have "wdz = wd'"
    by (cases e) (auto simp: wait_for_pod_be_ready_def split: if_splits)
  ultimately show ?thesis by simp
qed

lemma get_pod_name_from_dc_iterated:
  assumes "Waiter t i = Inr w0" "get_pod_name_from_dc dc t i wd = Some (r, wdz)"
  shows "iterated wdz = iterated wd @ [w0]"
proof (cases "for_waiter (pod_name_body dc) () w0 wd")
  case None
  with assms show ?thesis by (simp add: get_pod_name_from_dc_def)
next
  case (Some q)
  obtain e ts w' wd' where q: "q = (e, ts, w', wd')" by (cases q)
  note run = Some[unfolded q]
  from for_waiter_iterated[OF run pod_name_body_iterated]
  have "iterated wd' = iterated wd @ [w0]" .
  moreover from assms run have "wdz = wd'"
    by (cases e) (auto simp: get_pod_name_from_dc_def split: if_splits)
  ultimately show ?thesis by simp
qed

lemma verify_pvc_status_is_bound_iterated:
  assumes "Waiter t i = Inr w0" "verify_pvc_status_is_bound p t i wd = Some (r, wdz)"
  shows "iterated wdz = iterated wd @ [w0]"
proof (cases "for_waiter (pvc_bound_body p) 0 w0 wd")
  case None
  with assms show ?thesis by (simp add: verify_pvc_status_is_bound_def)
next
  case (Some q)
  obtain e ts w' wd' where q: "q = (e, ts, w', wd')" by (cases q)
  note run = Some[unfolded q]
  from for_waiter_iterated[OF run pvc_bound_body_facts(3)]
  have "iterated wd' = iterated wd @ [w0]" .
  moreover from assms run have "iterated wdz = iterated wd'"
    by (cases e)
       (auto simp: verify_pvc_status_is_bound_def split: if_splits option.splits
          dest: g_run_iterated)
  ultimately show ?thesis by simp
qed

lemma verify_pvc_size_iterated:
  assumes "Waiter t i = Inr w0" "verify_pvc_size result p sz t i wd = Some (r, wdz)"
  shows "iterated wdz = iterated wd @ [w0]"
proof (cases "for_waiter (pvc_size_body result p sz) None w0 wd")
  case None
  with assms show ?thesis by (simp add: verify_pvc_size_def)
next
  case (Some q)
  obtain e ts w' wd' where q: "q = (e, ts, w', wd')" by (cases q)
  note run = Some[unfolded q]
  from for_waiter_iterated[OF run pvc_size_body_facts(3)]
  have "iterated wd' = iterated wd @ [w0]" .
  moreover from assms run have "wdz = wd'"
    by (cases e) (auto simp: verify_pvc_size_def split: if_splits option.splits)
  ultimately show ?thesis by simp
qed

lemma verify_pv_size_iterated:
  assumes "Waiter t i = Inr w0" "verify_pv_size result p sz t i wd = Some (r, wdz)"
  shows "iterated wdz = iterated wd @ [w0]"
proof (cases "for_waiter (pv_size_body result p sz) None w0 wd")
  case None
  with assms show ?thesis by (simp add: verify_pv_size_def)
next
  case (Some q)
  obtain e ts w' wd' where q: "q = (e, ts, w', wd')" by (cases q)
  note run = Some[unfolded q]
  from for_waiter_iterated[OF run pv_size_body_iterated]
  have "iterated wd' = iterated wd @ [w0]" .
  moreover from assms run have "wdz = wd'"
    by (cases e) (auto simp: verify_pv_size_def split: if_splits option.splits)
  ultimately show ?thesis by simp
qed

lemma wait_for_events_iterated:
  assumes "Waiter t i = Inr w0"
    "wait_for_events result items_of a b c d e t i wd = Some (r, wdz)"
  shows "iterated wdz = iterated wd @ [w0]"
proof (cases "for_waiter (events_body result items_of a b c d e) () w0 wd")
  case None
  with assms show ?thesis by (simp add: wait_for_events_def)
next
  case (Some q)
  obtain x ts w' wd' where q: "q = (x, ts, w', wd')" by (cases q)
  note run = Some[unfolded q]
  from for_waiter_iterated[OF run events_body_iterated]
  have "iterated wd' = iterated wd @ [w0]" .
  moreover from assms run have "wdz = wd'"
    by (cases x) (auto simp: wait_for_events_def split: if_splits option.splits)
  ultimately show ?thesis by simp
qed

lemma wait_for_resource_absence_iterated:
  assumes W: "Waiter t i = Inr w0"
    and res: "wait_for_resource_absence yaml_load ed rtype name i t wd = Some (r, wdz)"
  shows "rtype \<noteq> ''pvc'' \<Longrightarrow> iterated wdz = iterated wd @ [w0]"
    and "rtype = ''pvc'' \<Longrightarrow>
           (\<exists>x. r = Inl x \<and> iterated wdz = iterated wd @ [w0])
           \<or> (\<exists>w1. iterated wdz = iterated wd @ [w0, w1]
                  \<and> start_time w1 = Some (clock wd) \<and> \<not> fresh w1)"
proof -
  from W have fr: "start_time w0 = None" by (simp add: Waiter_Inr)
  obtain e ts w' wd' where
    run: "for_waiter (absence_body yaml_load ed rtype name) () w0 wd = Some (e, ts, w', wd')"
    using W res
    by (cases "for_waiter (absence_body yaml_load ed rtype name) () w0 wd")
       (auto simp: wait_for_resource_absence_def)
  from for_waiter_iterated[OF run absence_body_iterated]
  have it1: "iterated wd' = iterated wd @ [w0]" .
  from run have "iterate (absence_body yaml_load ed rtype name) () w0
      (wd\<lparr>iterated := iterated wd @ [w0]\<rparr>) = Some (e, ts, w', wd')"
    by (simp add: for_waiter_def)
  from iterate_started[OF this] fr have st: "start_time w' = Some (clock wd)" by simp
  show "iterated wdz = iterated wd @ [w0]" if "rtype \<noteq> ''pvc''"
  proof -
    from W res run that have "wdz = wd'"
      by (cases e) (auto simp: wait_for_resource_absence_def split: if_splits)
    with it1 show ?thesis by simp
  qed
  show "(\<exists>x. r = Inl x \<and> iterated wdz = iterated wd @ [w0])
           \<or> (\<exists>w1. iterated wdz = iterated wd @ [w0, w1]
                  \<and> start_time w1 = Some (clock wd) \<and> \<not> fresh w1)" if pvc: "rtype = ''pvc''"
  proof (cases "\<exists>x. e = Raised x")
    case True
    then obtain x where "e = Raised x" by blast
    with W res run have "r = Inl x" "wdz = wd'"
      by (auto simp: wait_for_resource_absence_def)
    with it1 show ?thesis by blast
  next
    case False
    have nr: "e \<noteq> Returned u" for u
      using run unfolding for_waiter_def
      by (induction rule: iterate_result_induct)
         (auto simp: absence_body_def split: option.splits sum.splits if_splits)
    from False nr W res run pvc obtain q where
      run2: "for_waiter (pv_claim_body name) () w' wd' = Some q"
      by (cases e; cases "for_waiter (pv_claim_body name) () w' wd'")
         (auto simp: wait_for_resource_absence_def)
    obtain e2 ts2 w2 wd2 where q: "q = (e2, ts2, w2, wd2)" by (cases q)
    from for_waiter_iterated[OF run2[unfolded q] pv_claim_body_iterated] it1
    have it2: "iterated wd2 = iterated wd @ [w0, w']" by simp
    from False nr W res run pvc run2 q have "wdz = wd2"
      by (cases e; cases e2) (auto simp: wait_for_resource_absence_def split: if_splits)
    with it2 st show ?thesis by (auto simp: fresh_def)
  qed
qed

lemma pvc_absence_waiter_reused:
  "wait_for_resource_absence Inr [] ''pvc'' ''claim1'' 10 0
      \<lparr>clock = 0, script = [(2, (0, ''kind: PersistentVolumeClaim'', [])), (2, (1, [], []))],
        ran = [], iterated = []\<rparr>
   = Some (Inl ExecutionError,
       \<lparr>clock = 2, script = [(2, (1, [], []))],
         ran = [OcGetYaml ''pvc'' (Some ''claim1'')],
         iterated = [\<lparr>timeout = 0, interval = 10, start_time = None, expired = False\<rparr>,
                     \<lparr>timeout = 0, interval = 10, start_time = Some 0, expired = True\<rparr>]\<rparr>)"
  by (simp add: wait_for_resource_absence_def Waiter_def for_waiter_def iterate.simps
        waiter_next_def absence_body_def pv_claim_body_def oc_get_yaml_def g_run_def)

lemma pod_run:
  "wait_for_pod_be_ready ''p'' 0 5
      \<lparr>clock = 0, script = [(2, (0, ''false Pending'', []))], ran = [], iterated = []\<rparr>
   = Some (Inl ExecutionError,
       \<lparr>clock = 2, script = [], ran = [OcGetPodReady ''p''], iterated = [\<lparr>timeout = 0, interval = 5, start_time = None, expired = False\<rparr>]\<rparr>)"
  by (simp add: wait_for_pod_be_ready_def Waiter_def for_waiter_def iterate.simps waiter_next_def pod_ready_body_def g_run_def py_split_def py_strip_def is_space_def)

lemma pod_name_run:
  "get_pod_name_from_dc ''dc1'' 0 5
      \<lparr>clock = 0, script = [(2, (0, ''pod-1'', []))], ran = [], iterated = []\<rparr>
   = Some (Inr (PyStr ''pod-1''),
       \<lparr>clock = 2, script = [], ran = [OcGetPodsOfDc ''dc1''], iterated = [\<lparr>timeout = 0, interval = 5, start_time = None, expired = False\<rparr>]\<rparr>)"
  by (simp add: get_pod_name_from_dc_def Waiter_def for_waiter_def iterate.simps waiter_next_def pod_name_body_def g_run_def py_strip_def is_space_def)

lemma pvc_bound_run:
  "verify_pvc_status_is_bound ''claim1'' 0 5
      \<lparr>clock = 0, script = [(2, (0, ''Bound'', []))], ran = [], iterated = []\<rparr>
   = Some (Inr (PyStr ''claim1''),
       \<lparr>clock = 2, script = [], ran = [OcGetPvcStatus ''claim1''], iterated = [\<lparr>timeout = 0, interval = 5, start_time = None, expired = False\<rparr>]\<rparr>)"
  by (simp add: verify_pvc_status_is_bound_def Waiter_def for_waiter_def iterate.simps waiter_next_def pvc_bound_body_def get_pvc_status_def g_run_def py_strip_def first_line_def is_space_def)

lemma pvc_size_run:
  "verify_pvc_size strict_result ''pvc1'' 1 0 5
      \<lparr>clock = 0, script = [(2, (0, ''1Gi 1Gi'', []))], ran = [], iterated = []\<rparr>
   = Some (Inr (PyBool True),
       \<lparr>clock = 2, script = [], ran = [OcGetPvcSizes ''pvc1''], iterated = [\<lparr>timeout = 0, interval = 5, start_time = None, expired = False\<rparr>]\<rparr>)"
  by (simp add: verify_pvc_size_def Waiter_def for_waiter_def iterate.simps waiter_next_def pvc_size_body_def cmd_run_def g_run_def strict_result_def py_split_def py_strip_def is_space_def py_index_def py_int_def is_digit_def digits_value_def)

lemma pv_size_run:
  "verify_pv_size strict_result ''pv1'' 1 0 5
      \<lparr>clock = 0, script = [(2, (0, ''1Gi'', []))], ran = [], iterated = []\<rparr>
   = Some (Inr (PyBool True),
       \<lparr>clock = 2, script = [], ran = [OcGetPvSize ''pv1''], iterated = [\<lparr>timeout = 0, interval = 5, start_time = None, expired = False\<rparr>]\<rparr>)"
  by (simp add: verify_pv_size_def Waiter_def for_waiter_def iterate.simps waiter_next_def pv_size_body_def cmd_run_def g_run_def strict_result_def py_split_def py_strip_def is_space_def py_index_def py_int_def is_digit_def digits_value_def)

lemma events_run:
  "wait_for_events strict_result (Inr \<circ> py_split) (Some ''claim1'') None None None None 0 5
      \<lparr>clock = 0, script = [(2, (0, ''ev1 ev2'', []))], ran = [], iterated = []\<rparr>
   = Some (Inr (Some [''ev1'', ''ev2'']),
       \<lparr>clock = 2, script = [], ran = [OcGetEvents [''involvedObject.name=claim1'']], iterated = [\<lparr>timeout = 0, interval = 5, start_time = None, expired = False\<rparr>]\<rparr>)"
  by (simp add: wait_for_events_def Waiter_def for_waiter_def iterate.simps waiter_next_def events_body_def get_events_def selector_def cmd_run_def g_run_def strict_result_def py_split_def py_strip_def is_space_def)

lemma absence_run:
  "wait_for_resource_absence Inr [] ''pod'' ''p1'' 5 0
      \<lparr>clock = 0, script = [(2, (1, [], []))], ran = [], iterated = []\<rparr>
   = Some (Inr PyNone,
       \<lparr>clock = 2, script = [], ran = [OcGetYaml ''pod'' (Some ''p1'')], iterated = [\<lparr>timeout = 0, interval = 5, start_time = None, expired = False\<rparr>]\<rparr>)"
  by (simp add: wait_for_resource_absence_def Waiter_def for_waiter_def iterate.simps waiter_next_def absence_body_def oc_get_yaml_def g_run_def)

section \<open>The loops of the polling functions\<close>

lemma iterate_waiter:
  "iterate body s w wd = Some (e, ts, w', wd') \<Longrightarrow>
     w' = w\<lparr>start_time := Some (case start_time w of None \<Rightarrow> clock wd | Some st \<Rightarrow> st),
            expired := (expired w \<or> (\<exists>s'. e = Exhausted s'))\<rparr>"
  by (induction rule: iterate_result_induct) (auto elim!: waiter_next_cases)

lemma iterate_exhausted_late:
  "iterate body s w wd = Some (e, ts, w', wd') \<Longrightarrow> e = Exhausted s' \<Longrightarrow>
     \<exists>st. start_time w' = Some st \<and> timeout w' \<le> clock wd' - st"
  by (induction rule: iterate_result_induct) (auto elim!: waiter_next_cases)

lemma for_waiter_after_exhausted:
  assumes "start_time w = Some st" "timeout w \<le> clock wd - st" "expired w"
  shows "for_waiter body s w wd = Some (Exhausted s, [], w, wd\<lparr>iterated := iterated wd @ [w]\<rparr>)"
proof -
  let ?wd = "wd\<lparr>iterated := iterated wd @ [w]\<rparr>"
  from assms have "waiter_next w ?wd = (StopIteration, w\<lparr>expired := True\<rparr>, ?wd)"
    by (intro waiter_next_expired[where st = st]) simp_all
  moreover from assms(3) have "w\<lparr>expired := True\<rparr> = w" by simp
  ultimately show ?thesis by (simp add: for_waiter_def iterate_stop)
qed

lemma iterate_no_return:
  "iterate body s w wd = Some (e, ts, w', wd') \<Longrightarrow>
   (\<And>s wd r wd'. body s wd \<noteq> Some (Return r, wd')) \<Longrightarrow> e \<noteq> Returned r'"
  by (induction rule: iterate_result_induct) auto

lemma iterate_no_raise:
  "iterate body s w wd = Some (e, ts, w', wd') \<Longrightarrow>
   (\<And>s wd x wd'. body s wd \<noteq> Some (Raise x, wd')) \<Longrightarrow> e \<noteq> Raised x'"
  by (induction rule: iterate_result_induct) auto











lemma absence_no_return:
  "absence_body yaml_load ed rtype name s wd \<noteq> Some (Return r, wd')"
  by (auto simp: absence_body_def split: option.splits sum.splits if_splits)

lemma pv_claim_no_return: "pv_claim_body name s wd \<noteq> Some (Return r, wd')"
  by (auto simp: pv_claim_body_def split: option.splits if_splits)

lemma pv_claim_no_raise: "pv_claim_body name s wd \<noteq> Some (Raise x, wd')"
  by (auto simp: pv_claim_body_def split: option.splits if_splits)

lemma for_waiter_fresh_waiter:
  assumes W: "Waiter t i = Inr w0"
    and run: "for_waiter body s w0 wd = Some (e, ts, w', wd')"
  shows "w' = w0\<lparr>start_time := Some (clock wd), expired := (\<exists>s'. e = Exhausted s')\<rparr>"
proof -
  from W have fr: "start_time w0 = None" "\<not> expired w0" by (auto simp: Waiter_Inr)
  from run have it: "iterate body s w0 (wd\<lparr>iterated := iterated wd @ [w0]\<rparr>)
      = Some (e, ts, w', wd')"
    by (simp add: for_waiter_def)
  have "w0\<lparr>start_time := Some (case start_time w0 of None \<Rightarrow> clock (wd\<lparr>iterated := iterated wd @ [w0]\<rparr>) | Some st \<Rightarrow> st),
            expired := (expired w0 \<or> (\<exists>s'. e = Exhausted s'))\<rparr>
        = w0\<lparr>start_time := Some (clock wd), expired := (\<exists>s'. e = Exhausted s')\<rparr>"
    by (simp add: fr)
  with iterate_waiter[OF it] show ?thesis by (rule trans)
qed

lemma absence_loop_facts:
  assumes W: "Waiter t i = Inr w0"
    and run: "for_waiter (absence_body yaml_load ed rtype name) () w0 wd = Some (e, ts, w', wd')"
  shows "e \<noteq> Returned r" "ts \<noteq> []"
    "expired w' \<longleftrightarrow> (\<exists>s'. e = Exhausted s')"
    "w' = w0\<lparr>start_time := Some (clock wd), expired := (\<exists>s'. e = Exhausted s')\<rparr>"
    "iterated wd' = iterated wd @ [w0]"
    "e = Exhausted s' \<Longrightarrow> \<exists>st. start_time w' = Some st \<and> timeout w' \<le> clock wd' - st"
proof -
  from W have fr: "start_time w0 = None" "\<not> expired w0" by (auto simp: Waiter_Inr)
  from run have it: "iterate (absence_body yaml_load ed rtype name) () w0
      (wd\<lparr>iterated := iterated wd @ [w0]\<rparr>) = Some (e, ts, w', wd')"
    by (simp add: for_waiter_def)
  show "e \<noteq> Returned r"
    using it by (rule iterate_no_return) (rule absence_no_return)
  from for_waiter_expired[OF W run]
  show "ts \<noteq> []" "expired w' \<longleftrightarrow> (\<exists>s'. e = Exhausted s')" by simp_all
  from for_waiter_fresh_waiter[OF W run]
  show "w' = w0\<lparr>start_time := Some (clock wd), expired := (\<exists>s'. e = Exhausted s')\<rparr>" .
  from for_waiter_iterated[OF run absence_body_iterated]
  show "iterated wd' = iterated wd @ [w0]" .
  show "\<exists>st. start_time w' = Some st \<and> timeout w' \<le> clock wd' - st" if "e = Exhausted s'"
    using iterate_exhausted_late[OF it that] .
qed


lemma pv_claim_loop_facts:
  assumes run2: "for_waiter (pv_claim_body name) () w wd = Some (e, ts, w', wd')"
  shows "e \<noteq> Returned r" "e \<noteq> Raised x"
    "expired w' \<longleftrightarrow> expired w \<or> (\<exists>s'. e = Exhausted s')"
    "iterated wd' = iterated wd @ [w]"
proof -
  from run2 have it: "iterate (pv_claim_body name) () w (wd\<lparr>iterated := iterated wd @ [w]\<rparr>)
      = Some (e, ts, w', wd')"
    by (simp add: for_waiter_def)
  show "e \<noteq> Returned r"
    using it by (rule iterate_no_return) (rule pv_claim_no_return)
  show "e \<noteq> Raised x"
    using it by (rule iterate_no_raise) (rule pv_claim_no_raise)
  from iterate_expired[OF it]
  show "expired w' \<longleftrightarrow> expired w \<or> (\<exists>s'. e = Exhausted s')" .
  from for_waiter_iterated[OF run2 pv_claim_body_iterated]
  show "iterated wd' = iterated wd @ [w]" .
qed

lemma wait_for_resource_absence_result_pvc:
  assumes W: "Waiter t i = Inr w0"
    and run: "for_waiter (absence_body yaml_load ed ''pvc'' name) () w0 wd
                = Some (e1, ts1, w1, wd1)"
  shows "e1 = Raised x \<Longrightarrow>
           wait_for_resource_absence yaml_load ed ''pvc'' name i t wd = Some (Inl x, wd1)"
    and "(\<And>x. e1 \<noteq> Raised x) \<Longrightarrow>
           wait_for_resource_absence yaml_load ed ''pvc'' name i t wd =
             (case for_waiter (pv_claim_body name) () w1 wd1 of
                None \<Rightarrow> None
              | Some (e2, ts2, w2, wd2) \<Rightarrow>
                  Some (if expired w2 then Inl ExecutionError else Inr PyNone, wd2))"
    and "for_waiter (pv_claim_body name) () w1 wd1 = Some (e2, ts2, w2, wd2) \<Longrightarrow>
           (expired w2 \<longleftrightarrow> (\<exists>s'. e2 = Exhausted s'))"
proof -
  note f = absence_loop_facts[OF W run]
  show "wait_for_resource_absence yaml_load ed ''pvc'' name i t wd = Some (Inl x, wd1)"
    if "e1 = Raised x"
    using that W run by (simp add: wait_for_resource_absence_def)
  show "wait_for_resource_absence yaml_load ed ''pvc'' name i t wd =
             (case for_waiter (pv_claim_body name) () w1 wd1 of
                None \<Rightarrow> None
              | Some (e2, ts2, w2, wd2) \<Rightarrow>
                  Some (if expired w2 then Inl ExecutionError else Inr PyNone, wd2))"
    if nr: "\<And>x. e1 \<noteq> Raised x"
  proof -
    from nr f(1) consider (Exhausted) s' where "e1 = Exhausted s'" | (Broke) s' where "e1 = Broke s'"
      by (cases e1) auto
    then have unf: "wait_for_resource_absence yaml_load ed ''pvc'' name i t wd =
        (case for_waiter (pv_claim_body name) () w1 wd1 of
           None \<Rightarrow> None
         | Some (Returned r, ts2, w2, wd2) \<Rightarrow> Some (Inr PyNone, wd2)
         | Some (Raised e, ts2, w2, wd2) \<Rightarrow> Some (Inl e, wd2)
         | Some (_, ts2, w2, wd2) \<Rightarrow>
             if ts1 = [] \<and> ts2 = [] then Some (Inl NameError, wd2)
             else if expired w2 then Some (Inl ExecutionError, wd2)
             else Some (Inr PyNone, wd2))"
      using W run by cases (simp_all add: wait_for_resource_absence_def)
    show ?thesis
    proof (cases "for_waiter (pv_claim_body name) () w1 wd1")
      case None
      with unf show ?thesis by simp
    next
      case (Some q)
      obtain e2 ts2 w2 wd2 where q: "q = (e2, ts2, w2, wd2)" by (cases q)
      note g = pv_claim_loop_facts[OF Some[unfolded q]]
      from g(1,2) consider s' where "e2 = Exhausted s'" | s' where "e2 = Broke s'"
        by (cases e2) auto
      then show ?thesis
        using unf Some q f(2) by cases simp_all
    qed
  qed
  show "expired w2 \<longleftrightarrow> (\<exists>s'. e2 = Exhausted s')"
    if run2: "for_waiter (pv_claim_body name) () w1 wd1 = Some (e2, ts2, w2, wd2)"
  proof (cases "expired w1")
    case False
    with pv_claim_loop_facts(3)[OF run2] show ?thesis by simp
  next
    case True
    with f(3) obtain s' where e1: "e1 = Exhausted s'" by blast
    from f(6)[OF e1] obtain st where "start_time w1 = Some st" "timeout w1 \<le> clock wd1 - st"
      by blast
    from for_waiter_after_exhausted[OF this True, of "pv_claim_body name" "()"] run2
    have "e2 = Exhausted ()" by simp
    with True pv_claim_loop_facts(3)[OF run2] show ?thesis by simp
  qed
qed












lemma pvc_absence_first_loop:
  "for_waiter (absence_body Inr [] ''pvc'' ''claim1'') ()
      \<lparr>timeout = 3, interval = 2, start_time = None, expired = False\<rparr>
      \<lparr>clock = 0, script = [(1, (1, [], [])), (1, (0, ''claim1'', []))], ran = [],
         iterated = []\<rparr>
   = Some (Broke (), [0],
       \<lparr>timeout = 3, interval = 2, start_time = Some 0, expired = False\<rparr>,
       \<lparr>clock = 1, script = [(1, (0, ''claim1'', []))], ran = [OcGetYaml ''pvc'' (Some ''claim1'')],
         iterated = [\<lparr>timeout = 3, interval = 2, start_time = None, expired = False\<rparr>]\<rparr>)"
  by (simp add: for_waiter_def iterate.simps waiter_next_def g_run_def absence_body_def oc_get_yaml_def)

lemma pvc_absence_second_loop:
  "for_waiter (pv_claim_body ''claim1'') ()
      \<lparr>timeout = 3, interval = 2, start_time = Some 0, expired = False\<rparr>
      \<lparr>clock = 1, script = [(1, (0, ''claim1'', []))], ran = [OcGetYaml ''pvc'' (Some ''claim1'')],
         iterated = [\<lparr>timeout = 3, interval = 2, start_time = None, expired = False\<rparr>]\<rparr>
   = Some (Exhausted (), [3],
       \<lparr>timeout = 3, interval = 2, start_time = Some 0, expired = True\<rparr>,
       \<lparr>clock = 4, script = [], ran = [OcGetYaml ''pvc'' (Some ''claim1''), OcGetPvClaims ''claim1''],
         iterated = [\<lparr>timeout = 3, interval = 2, start_time = None, expired = False\<rparr>, \<lparr>timeout = 3, interval = 2, start_time = Some 0, expired = False\<rparr>]\<rparr>)"
  by (simp add: for_waiter_def iterate.simps waiter_next_def g_run_def pv_claim_body_def)



text \<open>
  C3, as stated, fails: for a PVC, \<open>wait_for_resource_absence\<close> starts its second
  \<open>for\<close> statement on the Waiter its first one has used. With timeout 0 the claim still
  exists when the first loop is exhausted; the second loop finds the session started and
  expired, asks the host nothing (its answer is still there) and the function raises
  \<open>ExecutionError\<close>. The second Waiter in the record of started loops is not fresh.
\<close>

theorem fresh_waiter_for_every_loop_counterexample:
  "wait_for_resource_absence Inr [] ''pvc'' ''claim1'' 10 0
      \<lparr>clock = 0, script = [(2, (0, ''kind: PersistentVolumeClaim'', [])), (2, (1, [], []))],
        ran = [], iterated = []\<rparr>
   = Some (Inl ExecutionError,
       \<lparr>clock = 2, script = [(2, (1, [], []))],
         ran = [OcGetYaml ''pvc'' (Some ''claim1'')],
         iterated = [\<lparr>timeout = 0, interval = 10, start_time = None, expired = False\<rparr>,
                     \<lparr>timeout = 0, interval = 10, start_time = Some 0, expired = True\<rparr>]\<rparr>)
   \<and> \<not> list_all fresh
         [\<lparr>timeout = 0, interval = 10, start_time = None, expired = False\<rparr>,
          \<lparr>timeout = 0, interval = 10, start_time = Some 0, expired = True\<rparr>]"
  using pvc_absence_waiter_reused by (simp add: fresh_def)

text \<open>
  C3, amended. Every polling function constructs one fresh Waiter, with its timeout and
  its interval. \<open>wait_for_pod_be_ready\<close>, \<open>get_pod_name_from_dc\<close>,
  \<open>verify_pvc_status_is_bound\<close>, \<open>verify_pvc_size\<close>, \<open>verify_pv_size\<close> and
  \<open>wait_for_events\<close> start exactly one loop, on that Waiter, and so does
  \<open>wait_for_resource_absence\<close> for a resource type other than \<open>pvc\<close>. For \<open>pvc\<close>,
  when the first loop raised, the function raises the same and has started that one loop.
  Otherwise it starts a second loop on the same instance, in the state the first loop left
  it in: the timeout and interval are the same, the session started when the first loop
  did, and it has expired exactly if the first loop was exhausted. What the function
  does then is what this second loop gives.
\<close>

theorem one_waiter_per_operation:
  assumes "Waiter t i = Inr w0"
  shows
   "w0 = \<lparr>timeout = t, interval = i, start_time = None, expired = False\<rparr> \<and> fresh w0
    \<and> (wait_for_pod_be_ready pod t i wd = Some (r1, wd1) \<longrightarrow>
         iterated wd1 = iterated wd @ [w0])
    \<and> (get_pod_name_from_dc dc t i wd = Some (r2, wd2) \<longrightarrow>
         iterated wd2 = iterated wd @ [w0])
    \<and> (verify_pvc_status_is_bound pvc t i wd = Some (r3, wd3) \<longrightarrow>
         iterated wd3 = iterated wd @ [w0])
    \<and> (verify_pvc_size result pvc sz t i wd = Some (r4, wd4) \<longrightarrow>
         iterated wd4 = iterated wd @ [w0])
    \<and> (verify_pv_size result pv sz t i wd = Some (r5, wd5) \<longrightarrow>
         iterated wd5 = iterated wd @ [w0])
    \<and> (wait_for_events result items_of a b c d ev t i wd = Some (r6, wd6) \<longrightarrow>
         iterated wd6 = iterated wd @ [w0])
    \<and> (rtype \<noteq> ''pvc''
         \<and> wait_for_resource_absence yaml_load ed rtype name i t wd = Some (r7, wd7) \<longrightarrow>
         iterated wd7 = iterated wd @ [w0])
    \<and> (for_waiter (absence_body yaml_load ed ''pvc'' name) () w0 wd = Some (e8, ts8, w8, wd8) \<longrightarrow>
         w8 = w0\<lparr>start_time := Some (clock wd), expired := (\<exists>s'. e8 = Exhausted s')\<rparr>
         \<and> iterated wd8 = iterated wd @ [w0]
         \<and> (\<forall>x. e8 = Raised x \<longrightarrow>
                wait_for_resource_absence yaml_load ed ''pvc'' name i t wd = Some (Inl x, wd8))
         \<and> ((\<forall>x. e8 \<noteq> Raised x) \<longrightarrow>
                wait_for_resource_absence yaml_load ed ''pvc'' name i t wd =
                  (case for_waiter (pv_claim_body name) () w8 wd8 of
                     None \<Rightarrow> None
                   | Some (e9, ts9, w9, wd9) \<Rightarrow>
                       Some (if expired w9 then Inl ExecutionError else Inr PyNone, wd9))
                \<and> (\<forall>e9 ts9 w9 wd9.
                       for_waiter (pv_claim_body name) () w8 wd8 = Some (e9, ts9, w9, wd9) \<longrightarrow>
                       iterated wd9 = iterated wd @ [w0, w8])))"
proof -
  note W = assms
  from W have c0: "w0 = \<lparr>timeout = t, interval = i, start_time = None, expired = False\<rparr>"
    and c0': "fresh w0"
    by (simp_all add: Waiter_Inr fresh_def)
  have c1: "wait_for_pod_be_ready pod t i wd = Some (r1, wd1) \<longrightarrow>
         iterated wd1 = iterated wd @ [w0]"
    using wait_for_pod_be_ready_iterated[OF W] by (rule impI)
  have c2: "get_pod_name_from_dc dc t i wd = Some (r2, wd2) \<longrightarrow>
         iterated wd2 = iterated wd @ [w0]"
    using get_pod_name_from_dc_iterated[OF W] by (rule impI)
  have c3: "verify_pvc_status_is_bound pvc t i wd = Some (r3, wd3) \<longrightarrow>
         iterated wd3 = iterated wd @ [w0]"
    using verify_pvc_status_is_bound_iterated[OF W] by (rule impI)
  have c4: "verify_pvc_size result pvc sz t i wd = Some (r4, wd4) \<longrightarrow>
         iterated wd4 = iterated wd @ [w0]"
    using verify_pvc_size_iterated[OF W] by (rule impI)
  have c5: "verify_pv_size result pv sz t i wd = Some (r5, wd5) \<longrightarrow>
         iterated wd5 = iterated wd @ [w0]"
    using verify_pv_size_iterated[OF W] by (rule impI)
  have c6: "wait_for_events result items_of a b c d ev t i wd = Some (r6, wd6) \<longrightarrow>
         iterated wd6 = iterated wd @ [w0]"
    using wait_for_events_iterated[OF W] by (rule impI)
  have c7: "rtype \<noteq> ''pvc''
         \<and> wait_for_resource_absence yaml_load ed rtype name i t wd = Some (r7, wd7) \<longrightarrow>
         iterated wd7 = iterated wd @ [w0]"
  proof
    assume a: "rtype \<noteq> ''pvc''
         \<and> wait_for_resource_absence yaml_load ed rtype name i t wd = Some (r7, wd7)"
    then have "rtype \<noteq> ''pvc''"
      "wait_for_resource_absence yaml_load ed rtype name i t wd = Some (r7, wd7)"
      by simp_all
    from wait_for_resource_absence_iterated(1)[OF W this(2,1)]
    show "iterated wd7 = iterated wd @ [w0]" .
  qed
  have c8: "for_waiter (absence_body yaml_load ed ''pvc'' name) () w0 wd = Some (e8, ts8, w8, wd8) \<longrightarrow>
         w8 = w0\<lparr>start_time := Some (clock wd), expired := (\<exists>s'. e8 = Exhausted s')\<rparr>
         \<and> iterated wd8 = iterated wd @ [w0]
         \<and> (\<forall>x. e8 = Raised x \<longrightarrow>
                wait_for_resource_absence yaml_load ed ''pvc'' name i t wd = Some (Inl x, wd8))
         \<and> ((\<forall>x. e8 \<noteq> Raised x) \<longrightarrow>
                wait_for_resource_absence yaml_load ed ''pvc'' name i t wd =
                  (case for_waiter (pv_claim_body name) () w8 wd8 of
                     None \<Rightarrow> None
                   | Some (e9, ts9, w9, wd9) \<Rightarrow>
                       Some (if expired w9 then Inl ExecutionError else Inr PyNone, wd9))
                \<and> (\<forall>e9 ts9 w9 wd9.
                       for_waiter (pv_claim_body name) () w8 wd8 = Some (e9, ts9, w9, wd9) \<longrightarrow>
                       iterated wd9 = iterated wd @ [w0, w8]))"
  proof (intro impI conjI allI)
    assume run: "for_waiter (absence_body yaml_load ed ''pvc'' name) () w0 wd
        = Some (e8, ts8, w8, wd8)"
    note f = absence_loop_facts[OF W run]
    from f(4) show "w8 = w0\<lparr>start_time := Some (clock wd),
        expired := (\<exists>s'. e8 = Exhausted s')\<rparr>" .
    from f(5) show "iterated wd8 = iterated wd @ [w0]" .
    from wait_for_resource_absence_result_pvc(1)[OF W run]
    show "wait_for_resource_absence yaml_load ed ''pvc'' name i t wd = Some (Inl x, wd8)"
      if "e8 = Raised x" for x using that .
    assume "\<forall>x. e8 \<noteq> Raised x"
    then have nr: "\<And>x. e8 \<noteq> Raised x" by blast
    from wait_for_resource_absence_result_pvc(2)[OF W run nr]
    show "wait_for_resource_absence yaml_load ed ''pvc'' name i t wd =
                  (case for_waiter (pv_claim_body name) () w8 wd8 of
                     None \<Rightarrow> None
                   | Some (e9, ts9, w9, wd9) \<Rightarrow>
                       Some (if expired w9 then Inl ExecutionError else Inr PyNone, wd9))" .
    show "iterated wd9 = iterated wd @ [w0, w8]"
      if "for_waiter (pv_claim_body name) () w8 wd8 = Some (e9, ts9, w9, wd9)"
      for e9 ts9 w9 wd9
      using pv_claim_loop_facts(4)[OF that] f(5) by simp
  qed
  show ?thesis
    by (rule conjI[OF c0 conjI[OF c0' conjI[OF c1 conjI[OF c2 conjI[OF c3 conjI[OF c4
          conjI[OF c5 conjI[OF c6 conjI[OF c7 c8]]]]]]]]])
qed

text \<open>
  Witness: one run of each function with timeout 0, and a run of
  \<open>wait_for_resource_absence\<close> for a PVC that is gone at the first look while a PV
  names it until the timeout: two loops on the one Waiter.
\<close>

theorem one_waiter_per_operation_witness:
  "Waiter 0 5 = Inr \<lparr>timeout = 0, interval = 5, start_time = None, expired = False\<rparr>
   \<and> Waiter 3 2 = Inr \<lparr>timeout = 3, interval = 2, start_time = None, expired = False\<rparr>
   \<and> fresh \<lparr>timeout = 0, interval = 5, start_time = None, expired = False\<rparr>
   \<and> wait_for_pod_be_ready ''p'' 0 5
        \<lparr>clock = 0, script = [(2, (0, ''false Pending'', []))], ran = [], iterated = []\<rparr>
     = Some (Inl ExecutionError,
         \<lparr>clock = 2, script = [], ran = [OcGetPodReady ''p''], iterated = [\<lparr>timeout = 0, interval = 5, start_time = None, expired = False\<rparr>]\<rparr>)
   \<and> iterated \<lparr>clock = 2, script = [], ran = [OcGetPodReady ''p''], iterated = [\<lparr>timeout = 0, interval = 5, start_time = None, expired = False\<rparr>]\<rparr>
     = iterated \<lparr>clock = 0, script = [(2, (0, ''false Pending'', []))], ran = [], iterated = []\<rparr>
       @ [\<lparr>timeout = 0, interval = 5, start_time = None, expired = False\<rparr>]
   \<and> get_pod_name_from_dc ''dc1'' 0 5
        \<lparr>clock = 0, script = [(2, (0, ''pod-1'', []))], ran = [], iterated = []\<rparr>
     = Some (Inr (PyStr ''pod-1''),
         \<lparr>clock = 2, script = [], ran = [OcGetPodsOfDc ''dc1''], iterated = [\<lparr>timeout = 0, interval = 5, start_time = None, expired = False\<rparr>]\<rparr>)
   \<and> iterated \<lparr>clock = 2, script = [], ran = [OcGetPodsOfDc ''dc1''], iterated = [\<lparr>timeout = 0, interval = 5, start_time = None, expired = False\<rparr>]\<rparr>
     = iterated \<lparr>clock = 0, script = [(2, (0, ''pod-1'', []))], ran = [], iterated = []\<rparr>
       @ [\<lparr>timeout = 0, interval = 5, start_time = None, expired = False\<rparr>]
   \<and> verify_pvc_status_is_bound ''claim1'' 0 5
        \<lparr>clock = 0, script = [(2, (0, ''Bound'', []))], ran = [], iterated = []\<rparr>
     = Some (Inr (PyStr ''claim1''),
         \<lparr>clock = 2, script = [], ran = [OcGetPvcStatus ''claim1''], iterated = [\<lparr>timeout = 0, interval = 5, start_time = None, expired = False\<rparr>]\<rparr>)
   \<and> iterated \<lparr>clock = 2, script = [], ran = [OcGetPvcStatus ''claim1''], iterated = [\<lparr>timeout = 0, interval = 5, start_time = None, expired = False\<rparr>]\<rparr>
     = iterated \<lparr>clock = 0, script = [(2, (0, ''Bound'', []))], ran = [], iterated = []\<rparr>
       @ [\<lparr>timeout = 0, interval = 5, start_time = None, expired = False\<rparr>]
   \<and> verify_pvc_size strict_result ''pvc1'' 1 0 5
        \<lparr>clock = 0, script = [(2, (0, ''1Gi 1Gi'', []))], ran = [], iterated = []\<rparr>
     = Some (Inr (PyBool True),
         \<lparr>clock = 2, script = [], ran = [OcGetPvcSizes ''pvc1''], iterated = [\<lparr>timeout = 0, interval = 5, start_time = None, expired = False\<rparr>]\<rparr>)
   \<and> iterated \<lparr>clock = 2, script = [], ran = [OcGetPvcSizes ''pvc1''], iterated = [\<lparr>timeout = 0, interval = 5, start_time = None, expired = False\<rparr>]\<rparr>
     = iterated \<lparr>clock = 0, script = [(2, (0, ''1Gi 1Gi'', []))], ran = [], iterated = []\<rparr>
       @ [\<lparr>timeout = 0, interval = 5, start_time = None, expired = False\<rparr>]
   \<and> verify_pv_size strict_result ''pv1'' 1 0 5
        \<lparr>clock = 0, script = [(2, (0, ''1Gi'', []))], ran = [], iterated = []\<rparr>
     = Some (Inr (PyBool True),
         \<lparr>clock = 2, script = [], ran = [OcGetPvSize ''pv1''], iterated = [\<lparr>timeout = 0, interval = 5, start_time = None, expired = False\<rparr>]\<rparr>)
   \<and> iterated \<lparr>clock = 2, script = [], ran = [OcGetPvSize ''pv1''], iterated = [\<lparr>timeout = 0, interval = 5, start_time = None, expired = False\<rparr>]\<rparr>
     = iterated \<lparr>clock = 0, script = [(2, (0, ''1Gi'', []))], ran = [], iterated = []\<rparr>
       @ [\<lparr>timeout = 0, interval = 5, start_time = None, expired = False\<rparr>]
   \<and> wait_for_events strict_result (Inr \<circ> py_split) (Some ''claim1'') None None None None 0 5
        \<lparr>clock = 0, script = [(2, (0, ''ev1 ev2'', []))], ran = [], iterated = []\<rparr>
     = Some (Inr (Some [''ev1'', ''ev2'']),
         \<lparr>clock = 2, script = [], ran = [OcGetEvents [''involvedObject.name=claim1'']], iterated = [\<lparr>timeout = 0, interval = 5, start_time = None, expired = False\<rparr>]\<rparr>)
   \<and> iterated \<lparr>clock = 2, script = [], ran = [OcGetEvents [''involvedObject.name=claim1'']], iterated = [\<lparr>timeout = 0, interval = 5, start_time = None, expired = False\<rparr>]\<rparr>
     = iterated \<lparr>clock = 0, script = [(2, (0, ''ev1 ev2'', []))], ran = [], iterated = []\<rparr>
       @ [\<lparr>timeout = 0, interval = 5, start_time = None, expired = False\<rparr>]
   \<and> wait_for_resource_absence Inr [] ''pod'' ''p1'' 5 0
        \<lparr>clock = 0, script = [(2, (1, [], []))], ran = [], iterated = []\<rparr>
     = Some (Inr PyNone,
         \<lparr>clock = 2, script = [], ran = [OcGetYaml ''pod'' (Some ''p1'')], iterated = [\<lparr>timeout = 0, interval = 5, start_time = None, expired = False\<rparr>]\<rparr>)
   \<and> iterated \<lparr>clock = 2, script = [], ran = [OcGetYaml ''pod'' (Some ''p1'')], iterated = [\<lparr>timeout = 0, interval = 5, start_time = None, expired = False\<rparr>]\<rparr>
     = iterated \<lparr>clock = 0, script = [(2, (1, [], []))], ran = [], iterated = []\<rparr>
       @ [\<lparr>timeout = 0, interval = 5, start_time = None, expired = False\<rparr>]
   \<and> for_waiter (absence_body Inr [] ''pvc'' ''claim1'') ()
      \<lparr>timeout = 3, interval = 2, start_time = None, expired = False\<rparr>
      \<lparr>clock = 0, script = [(1, (1, [], [])), (1, (0, ''claim1'', []))], ran = [],
         iterated = []\<rparr>
   = Some (Broke (), [0],
       \<lparr>timeout = 3, interval = 2, start_time = Some 0, expired = False\<rparr>,
       \<lparr>clock = 1, script = [(1, (0, ''claim1'', []))], ran = [OcGetYaml ''pvc'' (Some ''claim1'')],
         iterated = [\<lparr>timeout = 3, interval = 2, start_time = None, expired = False\<rparr>]\<rparr>)
   \<and> for_waiter (pv_claim_body ''claim1'') ()
      \<lparr>timeout = 3, interval = 2, start_time = Some 0, expired = False\<rparr>
      \<lparr>clock = 1, script = [(1, (0, ''claim1'', []))], ran = [OcGetYaml ''pvc'' (Some ''claim1'')],
         iterated = [\<lparr>timeout = 3, interval = 2, start_time = None, expired = False\<rparr>]\<rparr>
   = Some (Exhausted (), [3],
       \<lparr>timeout = 3, interval = 2, start_time = Some 0, expired = True\<rparr>,
       \<lparr>clock = 4, script = [], ran = [OcGetYaml ''pvc'' (Some ''claim1''), OcGetPvClaims ''claim1''],
         iterated = [\<lparr>timeout = 3, interval = 2, start_time = None, expired = False\<rparr>, \<lparr>timeout = 3, interval = 2, start_time = Some 0, expired = False\<rparr>]\<rparr>)
   \<and> \<lparr>timeout = 3, interval = 2, start_time = Some 0, expired = False\<rparr>
     = \<lparr>timeout = 3, interval = 2, start_time = None, expired = False\<rparr>\<lparr>start_time := Some 0, expired := False\<rparr>
   \<and> wait_for_resource_absence Inr [] ''pvc'' ''claim1'' 2 3
      \<lparr>clock = 0, script = [(1, (1, [], [])), (1, (0, ''claim1'', []))], ran = [],
         iterated = []\<rparr>
   = Some (Inl ExecutionError,
       \<lparr>clock = 4, script = [], ran = [OcGetYaml ''pvc'' (Some ''claim1''), OcGetPvClaims ''claim1''],
         iterated = [\<lparr>timeout = 3, interval = 2, start_time = None, expired = False\<rparr>, \<lparr>timeout = 3, interval = 2, start_time = Some 0, expired = False\<rparr>]\<rparr>)
   \<and> iterated \<lparr>clock = 4, script = [], ran = [OcGetYaml ''pvc'' (Some ''claim1''), OcGetPvClaims ''claim1''],
         iterated = [\<lparr>timeout = 3, interval = 2, start_time = None, expired = False\<rparr>, \<lparr>timeout = 3, interval = 2, start_time = Some 0, expired = False\<rparr>]\<rparr>
     = iterated \<lparr>clock = 0, script = [(1, (1, [], [])), (1, (0, ''claim1'', []))], ran = [],
         iterated = []\<rparr>
       @ [\<lparr>timeout = 3, interval = 2, start_time = None, expired = False\<rparr>,
          \<lparr>timeout = 3, interval = 2, start_time = Some 0, expired = False\<rparr>]"
proof -
  have V: "Waiter 0 5 = Inr \<lparr>timeout = 0, interval = 5, start_time = None, expired = False\<rparr>"
    and W: "Waiter 3 2 = Inr \<lparr>timeout = 3, interval = 2, start_time = None, expired = False\<rparr>"
    by (simp_all add: Waiter_def)
  note t = one_waiter_per_operation[OF V]
  note u = one_waiter_per_operation[OF W]
  have f: "fresh \<lparr>timeout = 0, interval = 5, start_time = None, expired = False\<rparr>" using t[THEN conjunct2, THEN conjunct1] .
  have i0: "iterated \<lparr>clock = 2, script = [], ran = [OcGetPodReady ''p''], iterated = [\<lparr>timeout = 0, interval = 5, start_time = None, expired = False\<rparr>]\<rparr>
     = iterated \<lparr>clock = 0, script = [(2, (0, ''false Pending'', []))], ran = [], iterated = []\<rparr>
       @ [\<lparr>timeout = 0, interval = 5, start_time = None, expired = False\<rparr>]"
    using t[THEN conjunct2, THEN conjunct2, THEN conjunct1, rule_format, OF pod_run] by simp
  have i1: "iterated \<lparr>clock = 2, script = [], ran = [OcGetPodsOfDc ''dc1''], iterated = [\<lparr>timeout = 0, interval = 5, start_time = None, expired = False\<rparr>]\<rparr>
     = iterated \<lparr>clock = 0, script = [(2, (0, ''pod-1'', []))], ran = [], iterated = []\<rparr>
       @ [\<lparr>timeout = 0, interval = 5, start_time = None, expired = False\<rparr>]"
    using t[THEN conjunct2, THEN conjunct2, THEN conjunct2, THEN conjunct1, rule_format, OF pod_name_run] by simp
  have i2: "iterated \<lparr>clock = 2, script = [], ran = [OcGetPvcStatus ''claim1''], iterated = [\<lparr>timeout = 0, interval = 5, start_time = None, expired = False\<rparr>]\<rparr>
     = iterated \<lparr>clock = 0, script = [(2, (0, ''Bound'', []))], ran = [], iterated = []\<rparr>
       @ [\<lparr>timeout = 0, interval = 5, start_time = None, expired = False\<rparr>]"
    using t[THEN conjunct2, THEN conjunct2, THEN conjunct2, THEN conjunct2, THEN conjunct1, rule_format, OF pvc_bound_run] by simp
  have i3: "iterated \<lparr>clock = 2, script = [], ran = [OcGetPvcSizes ''pvc1''], iterated = [\<lparr>timeout = 0, interval = 5, start_time = None, expired = False\<rparr>]\<rparr>
     = iterated \<lparr>clock = 0, script = [(2, (0, ''1Gi 1Gi'', []))], ran = [], iterated = []\<rparr>
       @ [\<lparr>timeout = 0, interval = 5, start_time = None, expired = False\<rparr>]"
    using t[THEN conjunct2, THEN conjunct2, THEN conjunct2, THEN conjunct2, THEN conjunct2, THEN conjunct1, rule_format, OF pvc_size_run] by simp
  have i4: "iterated \<lparr>clock = 2, script = [], ran = [OcGetPvSize ''pv1''], iterated = [\<lparr>timeout = 0, interval = 5, start_time = None, expired = False\<rparr>]\<rparr>
     = iterated \<lparr>clock = 0, script = [(2, (0, ''1Gi'', []))], ran = [], iterated = []\<rparr>
       @ [\<lparr>timeout = 0, interval = 5, start_time = None, expired = False\<rparr>]"
    using t[THEN conjunct2, THEN conjunct2, THEN conjunct2, THEN conjunct2, THEN conjunct2, THEN conjunct2, THEN conjunct1, rule_format, OF pv_size_run] by simp
  have i5: "iterated \<lparr>clock = 2, script = [], ran = [OcGetEvents [''involvedObject.name=claim1'']], iterated = [\<lparr>timeout = 0, interval = 5, start_time = None, expired = False\<rparr>]\<rparr>
     = iterated \<lparr>clock = 0, script = [(2, (0, ''ev1 ev2'', []))], ran = [], iterated = []\<rparr>
       @ [\<lparr>timeout = 0, interval = 5, start_time = None, expired = False\<rparr>]"
    using t[THEN conjunct2, THEN conjunct2, THEN conjunct2, THEN conjunct2, THEN conjunct2, THEN conjunct2, THEN conjunct2, THEN conjunct1, rule_format, OF events_run] by simp
  have i6: "iterated \<lparr>clock = 2, script = [], ran = [OcGetYaml ''pod'' (Some ''p1'')], iterated = [\<lparr>timeout = 0, interval = 5, start_time = None, expired = False\<rparr>]\<rparr>
     = iterated \<lparr>clock = 0, script = [(2, (1, [], []))], ran = [], iterated = []\<rparr>
       @ [\<lparr>timeout = 0, interval = 5, start_time = None, expired = False\<rparr>]"
    using t[where rtype = "''pod''", THEN conjunct2, THEN conjunct2, THEN conjunct2, THEN conjunct2, THEN conjunct2, THEN conjunct2, THEN conjunct2, THEN conjunct2, THEN conjunct1, rule_format, OF conjI, OF _ absence_run] by simp
  note v = u[where yaml_load = Inr and ed = "[]" and name = "''claim1''",
      THEN conjunct2, THEN conjunct2, THEN conjunct2, THEN conjunct2, THEN conjunct2, THEN conjunct2, THEN conjunct2, THEN conjunct2, THEN conjunct2, rule_format, OF pvc_absence_first_loop]
  have nr: "(Broke () :: (unit, unit) loop_end) \<noteq> Raised x" for x by simp
  have weq: "\<lparr>timeout = 3, interval = 2, start_time = Some 0, expired = False\<rparr>
     = \<lparr>timeout = 3, interval = 2, start_time = None, expired = False\<rparr>\<lparr>start_time := Some 0, expired := False\<rparr>"
    using v[THEN conjunct1] by simp
  have fn: "wait_for_resource_absence Inr [] ''pvc'' ''claim1'' 2 3
      \<lparr>clock = 0, script = [(1, (1, [], [])), (1, (0, ''claim1'', []))], ran = [],
         iterated = []\<rparr>
   = Some (Inl ExecutionError,
       \<lparr>clock = 4, script = [], ran = [OcGetYaml ''pvc'' (Some ''claim1''), OcGetPvClaims ''claim1''],
         iterated = [\<lparr>timeout = 3, interval = 2, start_time = None, expired = False\<rparr>, \<lparr>timeout = 3, interval = 2, start_time = Some 0, expired = False\<rparr>]\<rparr>)"
    using v[THEN conjunct2, THEN conjunct2, THEN conjunct2, rule_format, OF nr, THEN conjunct1]
      pvc_absence_second_loop by simp
  have iteq: "iterated \<lparr>clock = 4, script = [], ran = [OcGetYaml ''pvc'' (Some ''claim1''), OcGetPvClaims ''claim1''],
         iterated = [\<lparr>timeout = 3, interval = 2, start_time = None, expired = False\<rparr>, \<lparr>timeout = 3, interval = 2, start_time = Some 0, expired = False\<rparr>]\<rparr>
     = iterated \<lparr>clock = 0, script = [(1, (1, [], [])), (1, (0, ''claim1'', []))], ran = [],
         iterated = []\<rparr>
       @ [\<lparr>timeout = 3, interval = 2, start_time = None, expired = False\<rparr>,
          \<lparr>timeout = 3, interval = 2, start_time = Some 0, expired = False\<rparr>]"
    using v[THEN conjunct2, THEN conjunct2, THEN conjunct2, rule_format, OF nr, THEN conjunct2,
        rule_format, OF pvc_absence_second_loop] by simp
  from V W f pod_run i0 pod_name_run i1 pvc_bound_run i2 pvc_size_run i3 pv_size_run i4 events_run i5 absence_run i6 pvc_absence_first_loop pvc_absence_second_loop weq fn iteq
  show ?thesis by (intro conjI)
qed

end
